theory Spec2Isabelle
  imports Main
begin

section \<open>Python strings\<close>

text \<open>
  A Python \<open>str\<close> is modelled as a \<open>string\<close>; a character stands for the code point
  of the same number, so the model covers the code points 0 to 255. The character classes
  below are the ones Python 3 uses for \<open>str\<close> values on that range: \<open>str.isspace\<close>
  (also the class \<open>\s\<close> of \<open>re\<close>), the class \<open>\w\<close> of \<open>re\<close>, and \<open>str.lower\<close>.
\<close>

definition code_point :: "char \<Rightarrow> nat" where
  "code_point c = of_char c"

definition py_isspace :: "char \<Rightarrow> bool" where
  "py_isspace c = (code_point c \<in> {9, 10, 11, 12, 13, 28, 29, 30, 31, 32, 133, 160})"

definition ascii_word :: "char \<Rightarrow> bool" where
  "ascii_word c = (let n = code_point c in
     (48 \<le> n \<and> n \<le> 57) \<or> (65 \<le> n \<and> n \<le> 90) \<or> (97 \<le> n \<and> n \<le> 122) \<or> n = 95)"

definition py_isword :: "char \<Rightarrow> bool" where
  "py_isword c = (let n = code_point c in
     ascii_word c \<or> n \<in> {170, 178, 179, 181, 185, 186, 188, 189, 190}
       \<or> (192 \<le> n \<and> n \<le> 214) \<or> (216 \<le> n \<and> n \<le> 246) \<or> 248 \<le> n)"


definition lower_char :: "char \<Rightarrow> char" where
  "lower_char c = (let n = code_point c in
     if (65 \<le> n \<and> n \<le> 90) \<or> (192 \<le> n \<and> n \<le> 214) \<or> (216 \<le> n \<and> n \<le> 222)
     then char_of (n + 32) else c)"

definition lower :: "string \<Rightarrow> string" where
  "lower s = map lower_char s"

text \<open>
  \<open>str.upper\<close> is used on the urgency word only, which the analysis step writes as one of
  three lower-case ASCII words; the model maps \<open>a\<close> to \<open>z\<close> and leaves every other
  character as it is.
\<close>

definition upper_char :: "char \<Rightarrow> char" where
  "upper_char c = (let n = code_point c in if 97 \<le> n \<and> n \<le> 122 then char_of (n - 32) else c)"

definition upper :: "string \<Rightarrow> string" where
  "upper s = map upper_char s"

definition lstrip :: "string \<Rightarrow> string" where
  "lstrip s = dropWhile py_isspace s"

definition rstrip :: "string \<Rightarrow> string" where
  "rstrip s = rev (dropWhile py_isspace (rev s))"

definition strip :: "string \<Rightarrow> string" where
  "strip s = rstrip (lstrip s)"

text \<open>\<open>str(i)\<close> for a non-negative integer: its decimal digits.\<close>

definition digit_char :: "nat \<Rightarrow> char" where
  "digit_char d = ''0123456789'' ! d"

fun str_nat :: "nat \<Rightarrow> string" where
  "str_nat n = (if n < 10 then [digit_char n] else str_nat (n div 10) @ [digit_char (n mod 10)])"

declare str_nat.simps [simp del]

text \<open>
  \<open>re.sub\<close> for the two shapes of pattern the report step uses. A pattern that is one
  character class replaces each matching character by itself; a class followed by \<open>+\<close>
  matches, at the leftmost matching character, the whole run that starts there, replaces it
  once, and goes on after the run.
\<close>

fun re_sub_class :: "(char \<Rightarrow> bool) \<Rightarrow> string \<Rightarrow> string \<Rightarrow> string" where
  "re_sub_class P repl [] = []"
| "re_sub_class P repl (c # cs) =
     (if P c then repl @ re_sub_class P repl cs else c # re_sub_class P repl cs)"

function re_sub_class_plus :: "(char \<Rightarrow> bool) \<Rightarrow> string \<Rightarrow> string \<Rightarrow> string" where
  "re_sub_class_plus P repl [] = []"
| "re_sub_class_plus P repl (c # cs) =
     (if P c then repl @ re_sub_class_plus P repl (dropWhile P cs)
      else c # re_sub_class_plus P repl cs)"
  by pat_completeness auto
termination
  by (relation "measure (\<lambda>(P, repl, s). length s)")
     (auto simp: le_imp_less_Suc length_dropWhile_le)

text \<open>
  \<open>repr\<close> of a \<open>str\<close> and \<open>str\<close> of a list of them, as the prompts print the
  possible conditions: single quotes unless the text holds a single quote and no double
  quote; backslash, the chosen quote, tab, newline and carriage return are escaped, and a
  code point that is not printable is written \<open>\xhh\<close>.
\<close>

definition squote :: char where
  "squote = CHR 0x27"

definition dquote :: char where
  "dquote = CHR 0x22"

definition backslash :: char where
  "backslash = CHR 0x5C"

definition hex_digit :: "nat \<Rightarrow> char" where
  "hex_digit d = ''0123456789abcdef'' ! d"

definition py_isprintable :: "char \<Rightarrow> bool" where
  "py_isprintable c = (let n = code_point c in
     \<not> (n < 32 \<or> n = 127 \<or> (128 \<le> n \<and> n \<le> 160) \<or> n = 173))"

definition repr_char :: "char \<Rightarrow> char \<Rightarrow> string" where
  "repr_char q c =
     (if c = q \<or> c = backslash then [backslash, c]
      else if c = CHR 0x09 then [backslash, CHR ''t'']
      else if c = CHR 0x0A then [backslash, CHR ''n'']
      else if c = CHR 0x0D then [backslash, CHR ''r'']
      else if \<not> py_isprintable c
        then [backslash, CHR ''x'', hex_digit (code_point c div 16), hex_digit (code_point c mod 16)]
      else [c])"

definition repr_str :: "string \<Rightarrow> string" where
  "repr_str s =
     (let q = (if squote \<in> set s \<and> dquote \<notin> set s then dquote else squote)
      in [q] @ concat (map (repr_char q) s) @ [q])"

fun join :: "string \<Rightarrow> string list \<Rightarrow> string" where
  "join sep [] = []"
| "join sep [x] = x"
| "join sep (x # y # ys) = x @ sep @ join sep (y # ys)"

definition str_list :: "string list \<Rightarrow> string" where
  "str_list xs = ''['' @ join '', '' (map repr_str xs) @ '']''"

text \<open>The lines \<open>str(i) + ". " + x + "\n"\<close> for \<open>i, x in enumerate(xs, 1)\<close>.\<close>

definition numbered_lines :: "string list \<Rightarrow> string" where
  "numbered_lines xs =
     concat (map (\<lambda>(i, x). str_nat i @ ''. '' @ x @ ''\<newline>'') (zip [1..<Suc (length xs)] xs))"

text \<open>
  \<open>datetime.now()\<close> is read from the environment; \<open>strftime\<close> pads each field with
  zeros to its width.
\<close>

record datetime =
  year :: nat
  month :: nat
  day :: nat
  hour :: nat
  minute :: nat
  second :: nat

definition pad :: "nat \<Rightarrow> nat \<Rightarrow> string" where
  "pad width n = replicate (width - length (str_nat n)) CHR ''0'' @ str_nat n"

text \<open>\<open>strftime("%Y-%m-%d %H:%M:%S")\<close> and \<open>strftime("%Y%m%d_%H%M%S")\<close>.\<close>

definition strftime_report :: "datetime \<Rightarrow> string" where
  "strftime_report t = pad 4 (year t) @ ''-'' @ pad 2 (month t) @ ''-'' @ pad 2 (day t) @ '' ''
     @ pad 2 (hour t) @ '':'' @ pad 2 (minute t) @ '':'' @ pad 2 (second t)"

definition strftime_filename :: "datetime \<Rightarrow> string" where
  "strftime_filename t = pad 4 (year t) @ pad 2 (month t) @ pad 2 (day t) @ ''_''
     @ pad 2 (hour t) @ pad 2 (minute t) @ pad 2 (second t)"

section \<open>The report file name (generate_medical_report, the lines that clean the symptoms)\<close>

text \<open>The class \<open>[^\w\s-]\<close> of the first substitution, and \<open>[-\s]\<close> of the second.\<close>

definition not_word_space_hyphen :: "char \<Rightarrow> bool" where
  "not_word_space_hyphen c = (\<not> (py_isword c \<or> py_isspace c \<or> c = CHR ''-''))"

definition hyphen_or_space :: "char \<Rightarrow> bool" where
  "hyphen_or_space c = (c = CHR ''-'' \<or> py_isspace c)"

definition symptom_preview :: "string \<Rightarrow> string" where
  "symptom_preview symptoms =
     re_sub_class_plus hyphen_or_space ''_''
       (re_sub_class not_word_space_hyphen [] (take 30 symptoms))"

definition report_filename :: "string \<Rightarrow> string \<Rightarrow> string" where
  "report_filename timestamp symptoms =
     ''medical_analysis_'' @ timestamp @ ''_'' @ symptom_preview symptoms @ ''.md''"





section \<open>Search results (utils.deduplicate_search_results)\<close>

text \<open>
  A search response carries a list of results under \<open>results\<close>; a result carries its
  \<open>url\<close> with its other fields. The returned \<open>dict\<close> keeps insertion order, so it is
  an association list whose keys are distinct.
\<close>

record search_result =
  url :: string
  title :: string
  content :: string
  raw_content :: "string option"

record search_response =
  query :: string
  results :: "search_result list"

fun add_results :: "(string \<times> search_result) list \<Rightarrow> search_result list
    \<Rightarrow> (string \<times> search_result) list" where
  "add_results unique_results [] = unique_results"
| "add_results unique_results (r # rs) =
     add_results
       (if url r \<notin> fst ` set unique_results then unique_results @ [(url r, r)]
        else unique_results) rs"

fun add_responses :: "(string \<times> search_result) list \<Rightarrow> search_response list
    \<Rightarrow> (string \<times> search_result) list" where
  "add_responses unique_results [] = unique_results"
| "add_responses unique_results (response # rest) =
     add_responses (add_results unique_results (results response)) rest"

definition deduplicate_search_results :: "search_response list \<Rightarrow> (string \<times> search_result) list" where
  "deduplicate_search_results search_results = add_responses [] search_results"

text \<open>All results of all responses, in response order.\<close>

definition all_results :: "search_response list \<Rightarrow> search_result list" where
  "all_results search_results = concat (map results search_results)"

section \<open>Models (models.py) and workflow state (medical_state.py)\<close>

text \<open>
  \<open>SymptomAnalysis.urgency_level\<close> is a \<open>Literal["low", "moderate", "urgent"]\<close>:
  building the model from any other word raises a validation error.
\<close>

datatype urgency = Low | Moderate | Urgent

text \<open>
  A Python value that may be \<open>None\<close>, and the result of a call that may raise: a call
  either raises or returns, and what it returns may be \<open>None\<close>.
\<close>

datatype 'a or_none = PyNone | Value 'a

datatype 'a reply = Raises | Returns "'a or_none"

fun urgency_str :: "urgency \<Rightarrow> string" where
  "urgency_str Low = ''low''"
| "urgency_str Moderate = ''moderate''"
| "urgency_str Urgent = ''urgent''"

definition parse_urgency :: "string \<Rightarrow> urgency option" where
  "parse_urgency w =
     (if w = ''low'' then Some Low else if w = ''moderate'' then Some Moderate
      else if w = ''urgent'' then Some Urgent else None)"

record SymptomAnalysis =
  sa_symptom_summary :: string
  sa_possible_conditions :: "string list"
  sa_urgency_level :: urgency
  sa_reasoning :: string

record PatientRecommendation =
  pr_immediate_actions :: "string list"
  pr_general_care :: "string list"
  pr_when_to_seek_help :: string
  pr_follow_up :: "string or_none"

record EscalationAdvice =
  ea_urgency_message :: string
  ea_immediate_action :: string
  ea_warning_signs :: "string list"
  ea_emergency_contact :: string

text \<open>
  The three \<open>dict\<close> values kept in the state. A field is \<open>None\<close> when the key is absent;
  the dict is empty (falsy) when every key is. \<open>follow_up\<close> may be present with the value
  \<open>None\<close>, since the model field is \<open>Optional[str]\<close>.
\<close>

record analysis_dict =
  symptom_summary :: "string option"
  possible_conditions :: "string list option"
  analysis_urgency_level :: "string option"
  reasoning :: "string option"

record recommendations_dict =
  immediate_actions :: "string list option"
  general_care :: "string list option"
  when_to_seek_help :: "string option"
  follow_up :: "string or_none option"

record escalation_dict =
  urgency_message :: "string option"
  immediate_action :: "string option"
  warning_signs :: "string list option"
  emergency_contact :: "string option"

definition empty_analysis :: analysis_dict where
  "empty_analysis = \<lparr>symptom_summary = None, possible_conditions = None,
     analysis_urgency_level = None, reasoning = None\<rparr>"

definition empty_recommendations :: recommendations_dict where
  "empty_recommendations = \<lparr>immediate_actions = None, general_care = None,
     when_to_seek_help = None, follow_up = None\<rparr>"

definition empty_escalation :: escalation_dict where
  "empty_escalation = \<lparr>urgency_message = None, immediate_action = None,
     warning_signs = None, emergency_contact = None\<rparr>"

datatype message = HumanMessage string | AIMessage string

fun message_content :: "message \<Rightarrow> string" where
  "message_content (HumanMessage c) = c"
| "message_content (AIMessage c) = c"

text \<open>
  \<open>MedicalState\<close>: every key but \<open>messages\<close> is optional. The value a node returns is a
  dict of the keys it writes; it has the same shape, with \<open>None\<close> for a key it leaves out
  and, under \<open>messages\<close>, the messages it adds. \<open>symptoms\<close> and \<open>medical_history\<close> are
  also keys of the input, typed \<open>Optional[str]\<close>: such a key may be present and hold
  Python's \<open>None\<close>, which \<open>state.get(key, default)\<close> then returns instead of the default.
\<close>

record MedicalState =
  messages :: "message list"
  symptoms :: "string or_none option"
  medical_history :: "string or_none option"
  symptom_analysis :: "analysis_dict option"
  medical_research :: "string option"
  recommendations :: "recommendations_dict option"
  escalation_advice :: "escalation_dict option"
  urgency_level :: "string option"
  final_report :: "string option"
  report_filepath :: "string option"

definition no_update :: MedicalState where
  "no_update = \<lparr>messages = [], symptoms = None, medical_history = None,
     symptom_analysis = None, medical_research = None, recommendations = None,
     escalation_advice = None, urgency_level = None, final_report = None,
     report_filepath = None\<rparr>"

definition only_message :: "string \<Rightarrow> MedicalState" where
  "only_message text = no_update\<lparr>messages := [AIMessage text]\<rparr>"

text \<open>
  How the graph merges a returned dict into the state. \<open>messages\<close> is annotated with the
  reducer \<open>add_messages\<close>, which appends messages that carry no id of an earlier one (the
  nodes create fresh messages); every other key has no reducer, so a returned value
  replaces the stored one.
\<close>

definition add_messages :: "message list \<Rightarrow> message list \<Rightarrow> message list" where
  "add_messages left right = left @ right"

definition last_value :: "'a option \<Rightarrow> 'a option \<Rightarrow> 'a option" where
  "last_value old new = (case new of None \<Rightarrow> old | Some v \<Rightarrow> Some v)"

definition apply_update :: "MedicalState \<Rightarrow> MedicalState \<Rightarrow> MedicalState" where
  "apply_update state u =
     \<lparr>messages = add_messages (messages state) (messages u),
      symptoms = last_value (symptoms state) (symptoms u),
      medical_history = last_value (medical_history state) (medical_history u),
      symptom_analysis = last_value (symptom_analysis state) (symptom_analysis u),
      medical_research = last_value (medical_research state) (medical_research u),
      recommendations = last_value (recommendations state) (recommendations u),
      escalation_advice = last_value (escalation_advice state) (escalation_advice u),
      urgency_level = last_value (urgency_level state) (urgency_level u),
      final_report = last_value (final_report state) (final_report u),
      report_filepath = last_value (report_filepath state) (report_filepath u)\<rparr>"

text \<open>\<open>d.get(key, default)\<close> on an optional value.\<close>

definition get_or :: "'a option \<Rightarrow> 'a \<Rightarrow> 'a" where
  "get_or v fallback = (case v of None \<Rightarrow> fallback | Some x \<Rightarrow> x)"

section \<open>Providers\<close>

text \<open>
  The language model, the four tools and the clock are outside the program; each call is a
  \<open>reply\<close>. The model's reply is read only through its tool calls, each a tool name with the
  arguments the model chose; a reply that is \<open>None\<close> or has no tool calls gives none.
  \<open>file_write\<close> says whether creating the directory and writing the report file went
  through.
\<close>

datatype tool_call = ToolCall (tool_name: string) (tool_args: "(string \<times> string) list")

record providers =
  llm_invoke :: "string \<Rightarrow> tool_call list reply"
  analyze_symptoms :: "(string \<times> string) list \<Rightarrow> SymptomAnalysis reply"
  tavily_search :: "(string \<times> string) list \<Rightarrow> string reply"
  create_recommendations :: "SymptomAnalysis \<Rightarrow> PatientRecommendation reply"
  create_escalation_advice :: "SymptomAnalysis \<Rightarrow> PatientRecommendation \<Rightarrow> EscalationAdvice reply"
  now_report :: datetime
  now_filename :: datetime
  file_write :: "string \<Rightarrow> string \<Rightarrow> bool"

datatype error = ProviderError | ValidationError | TypeError | AttributeError | OSError | KeyError

datatype node_result = Update MedicalState | Interrupt string | Raise error

text \<open>\<open>response.tool_calls\<close> when the reply has the attribute and it is not empty.\<close>

definition response_tool_calls :: "tool_call list or_none \<Rightarrow> tool_call list" where
  "response_tool_calls response = (case response of PyNone \<Rightarrow> [] | Value tool_calls \<Rightarrow> tool_calls)"

section \<open>The nodes (medical_agents.py)\<close>

definition collect_patient_info :: "MedicalState \<Rightarrow> node_result" where
  "collect_patient_info state =
     (if messages state \<noteq> [] then
        Update (no_update\<lparr>
          symptoms := Some (Value (message_content (last (messages state)))),
          medical_history :=
            Some (get_or (medical_history state) (Value ''No medical history provided'')),
          messages := [AIMessage ''Patient information collected successfully'']\<rparr>)
      else Update (only_message ''No patient information found''))"

definition analysis_prompt :: "string \<Rightarrow> string \<Rightarrow> string" where
  "analysis_prompt symptoms_text history_text =
     ''You are a medical analysis assistant. Analyze the following patient symptoms and medical history. ''
     @ ''You have access to search tools if you need additional medical information to make a proper assessment. ''
     @ ''Use the analyze_symptoms tool to provide a structured analysis, and use tavily_search if you need ''
     @ ''to look up specific medical conditions, treatments, or diagnostic criteria.\<newline>\<newline>''
     @ ''Patient Symptoms: '' @ symptoms_text @ ''\<newline>''
     @ ''Medical History: '' @ history_text @ ''\<newline>\<newline>''
     @ ''Please provide a comprehensive symptom analysis.''"

text \<open>
  The loop over the tool calls of the analysis reply: a call of \<open>analyze_symptoms\<close> runs the
  tool and keeps what it returns (a later one replaces an earlier one, also by \<open>None\<close>), a
  call of \<open>tavily_search\<close> adds a research line, which fails with a type error when the
  search returned \<open>None\<close>, and any other call is passed over.
\<close>

fun analysis_tool_calls :: "providers \<Rightarrow> tool_call list \<Rightarrow> SymptomAnalysis option \<times> string
    \<Rightarrow> error + (SymptomAnalysis option \<times> string)" where
  "analysis_tool_calls env [] acc = Inr acc"
| "analysis_tool_calls env (tc # tcs) (analysis_result, research_info) =
     (if tool_name tc = ''analyze_symptoms'' then
        (case analyze_symptoms env (tool_args tc) of
           Raises \<Rightarrow> Inl ProviderError
         | Returns PyNone \<Rightarrow> analysis_tool_calls env tcs (None, research_info)
         | Returns (Value a) \<Rightarrow> analysis_tool_calls env tcs (Some a, research_info))
      else if tool_name tc = ''tavily_search'' then
        (case tavily_search env (tool_args tc) of
           Raises \<Rightarrow> Inl ProviderError
         | Returns PyNone \<Rightarrow> Inl TypeError
         | Returns (Value search_result) \<Rightarrow>
             analysis_tool_calls env tcs
               (analysis_result, research_info @ ''Research: '' @ search_result @ ''\<newline>''))
      else analysis_tool_calls env tcs (analysis_result, research_info))"

definition analysis_to_dict :: "SymptomAnalysis \<Rightarrow> analysis_dict" where
  "analysis_to_dict a =
     \<lparr>symptom_summary = Some (sa_symptom_summary a),
      possible_conditions = Some (sa_possible_conditions a),
      analysis_urgency_level = Some (urgency_str (sa_urgency_level a)),
      reasoning = Some (sa_reasoning a)\<rparr>"

definition analysis_update :: "SymptomAnalysis \<Rightarrow> string \<Rightarrow> MedicalState" where
  "analysis_update a research_info =
     no_update\<lparr>
       symptom_analysis := Some (analysis_to_dict a),
       urgency_level := Some (urgency_str (sa_urgency_level a)),
       medical_research :=
         Some (if research_info \<noteq> [] then research_info else ''No additional research needed''),
       messages := [AIMessage (''Intelligent symptom analysis completed. Urgency level: ''
                      @ urgency_str (sa_urgency_level a))]\<rparr>"

text \<open>
  \<open>symptoms\<close> is falsy when the key is absent, holds \<open>None\<close> or holds the empty string.
  Building the prompt fails with a type error when \<open>medical_history\<close> holds \<open>None\<close>. When no
  tool call left a result, the tool is called directly, and reading the fields of a result
  that is \<open>None\<close> fails with an attribute error.
\<close>

definition analyze_symptoms_node :: "providers \<Rightarrow> MedicalState \<Rightarrow> node_result" where
  "analyze_symptoms_node env state =
     (case get_or (symptoms state) (Value []) of
        PyNone \<Rightarrow> Update (only_message ''No symptoms provided for analysis'')
      | Value symptoms_text \<Rightarrow>
          if symptoms_text = [] then Update (only_message ''No symptoms provided for analysis'')
          else
            (case get_or (medical_history state) (Value ''No medical history provided'') of
               PyNone \<Rightarrow> Raise TypeError
             | Value history_text \<Rightarrow>
                 (case llm_invoke env (analysis_prompt symptoms_text history_text) of
                    Raises \<Rightarrow> Raise ProviderError
                  | Returns response \<Rightarrow>
                      (case analysis_tool_calls env (response_tool_calls response) (None, []) of
                         Inl e \<Rightarrow> Raise e
                       | Inr (Some a, research_info) \<Rightarrow> Update (analysis_update a research_info)
                       | Inr (None, research_info) \<Rightarrow>
                           (case analyze_symptoms env
                                   [(''symptoms'', symptoms_text),
                                    (''medical_history'', history_text)] of
                              Raises \<Rightarrow> Raise ProviderError
                            | Returns PyNone \<Rightarrow> Raise AttributeError
                            | Returns (Value a) \<Rightarrow> Update (analysis_update a research_info))))))"

definition analysis_is_empty :: "analysis_dict \<Rightarrow> bool" where
  "analysis_is_empty a = (a = empty_analysis)"

definition recommendations_is_empty :: "recommendations_dict \<Rightarrow> bool" where
  "recommendations_is_empty r = (r = empty_recommendations)"

definition escalation_is_empty :: "escalation_dict \<Rightarrow> bool" where
  "escalation_is_empty e = (e = empty_escalation)"

definition interrupt_message :: "analysis_dict \<Rightarrow> string" where
  "interrupt_message analysis =
     ''Based on the symptom analysis, do you have relevant medical history ''
     @ ''(medications, conditions, allergies, surgeries, family history) ''
     @ ''that might help improve the recommendations?\<newline>\<newline>''
     @ ''Current analysis:\<newline>''
     @ ''- Summary: '' @ get_or (symptom_summary analysis) ''N/A'' @ ''\<newline>''
     @ ''- Urgency: '' @ get_or (analysis_urgency_level analysis) ''N/A'' @ ''\<newline>''
     @ ''- Possible conditions: '' @ str_list (get_or (possible_conditions analysis) [])
     @ ''\<newline>\<newline>''
     @ ''Enter your medical history (or 'no'/'none' if not applicable):''"

text \<open>
  The part of \<open>collect_medical_history\<close> after \<open>interrupt\<close> has returned the value the
  caller resumed with.
\<close>

definition process_user_input :: "string \<Rightarrow> MedicalState" where
  "process_user_input user_input =
     (if user_input \<noteq> [] \<and> lower (strip user_input) \<notin> set [''no'', ''none'', ''n/a'', []]
      then no_update\<lparr>
             medical_history := Some (Value (strip user_input)),
             messages := [AIMessage (''Medical history collected: '' @ strip user_input)]\<rparr>
      else no_update\<lparr>
             medical_history := Some (Value ''No additional medical history provided''),
             messages := [AIMessage ''No additional medical history provided'']\<rparr>)"

text \<open>
  \<open>interrupt\<close> stops the node and hands its argument to the caller when the run holds no
  resume value; when the node is entered again with one, the node runs from its first line
  and \<open>interrupt\<close> returns that value.
\<close>

definition collect_medical_history :: "MedicalState \<Rightarrow> string option \<Rightarrow> node_result" where
  "collect_medical_history state resume =
     (let analysis = get_or (symptom_analysis state) empty_analysis
      in if analysis_is_empty analysis
         then Update (only_message ''No symptom analysis available for medical history collection'')
         else (case resume of
                 None \<Rightarrow> Interrupt (interrupt_message analysis)
               | Some user_input \<Rightarrow> Update (process_user_input user_input)))"

text \<open>\<open>str\<close> of the analysis dict: the keys that are present, in the order they were written.\<close>

definition dict_item :: "string \<Rightarrow> string option \<Rightarrow> string list" where
  "dict_item key v = (case v of None \<Rightarrow> [] | Some text \<Rightarrow> [[squote] @ key @ [squote] @ '': '' @ text])"

definition str_analysis :: "analysis_dict \<Rightarrow> string" where
  "str_analysis analysis =
     ''{'' @ join '', ''
        (dict_item ''symptom_summary'' (map_option repr_str (symptom_summary analysis))
         @ dict_item ''possible_conditions'' (map_option str_list (possible_conditions analysis))
         @ dict_item ''urgency_level'' (map_option repr_str (analysis_urgency_level analysis))
         @ dict_item ''reasoning'' (map_option repr_str (reasoning analysis)))
     @ ''}''"

definition recommendation_prompt :: "analysis_dict \<Rightarrow> string \<Rightarrow> string" where
  "recommendation_prompt analysis research =
     ''You are a medical recommendation assistant. Based on the symptom analysis and any research data, ''
     @ ''generate comprehensive patient-friendly care recommendations. You can use additional search tools ''
     @ ''if you need specific treatment information or care guidelines.\<newline>\<newline>''
     @ ''Symptom Analysis: '' @ str_analysis analysis @ ''\<newline>\<newline>''
     @ ''Previous Research: '' @ research @ ''\<newline>\<newline>''
     @ ''Use the create_recommendations tool to provide structured recommendations. ''
     @ ''If you need additional information about treatments or care guidelines, use tavily_search.''"

text \<open>
  Building a \<open>SymptomAnalysis\<close> from the stored dict; \<open>default_urgency\<close> is the word used
  when the dict has no urgency. The result is \<open>None\<close> when validation fails.
\<close>

definition symptom_analysis_obj :: "analysis_dict \<Rightarrow> string \<Rightarrow> SymptomAnalysis option" where
  "symptom_analysis_obj analysis default_urgency =
     (case parse_urgency (get_or (analysis_urgency_level analysis) default_urgency) of
        None \<Rightarrow> None
      | Some u \<Rightarrow>
          Some \<lparr>sa_symptom_summary = get_or (symptom_summary analysis) [],
                sa_possible_conditions = get_or (possible_conditions analysis) [],
                sa_urgency_level = u,
                sa_reasoning = get_or (reasoning analysis) []\<rparr>)"

definition invoke_create_recommendations :: "providers \<Rightarrow> analysis_dict
    \<Rightarrow> error + PatientRecommendation or_none" where
  "invoke_create_recommendations env analysis =
     (case symptom_analysis_obj analysis ''low'' of
        None \<Rightarrow> Inl ValidationError
      | Some obj \<Rightarrow>
          (case create_recommendations env obj of
             Raises \<Rightarrow> Inl ProviderError
           | Returns r \<Rightarrow> Inr r))"

fun recommendation_tool_calls :: "providers \<Rightarrow> analysis_dict \<Rightarrow> tool_call list
    \<Rightarrow> PatientRecommendation option \<times> string
    \<Rightarrow> error + (PatientRecommendation option \<times> string)" where
  "recommendation_tool_calls env analysis [] acc = Inr acc"
| "recommendation_tool_calls env analysis (tc # tcs) (recommendations_result, additional_research) =
     (if tool_name tc = ''create_recommendations'' then
        (case invoke_create_recommendations env analysis of
           Inl e \<Rightarrow> Inl e
         | Inr PyNone \<Rightarrow> recommendation_tool_calls env analysis tcs (None, additional_research)
         | Inr (Value r) \<Rightarrow>
             recommendation_tool_calls env analysis tcs (Some r, additional_research))
      else if tool_name tc = ''tavily_search'' then
        (case tavily_search env (tool_args tc) of
           Raises \<Rightarrow> Inl ProviderError
         | Returns PyNone \<Rightarrow> Inl TypeError
         | Returns (Value search_result) \<Rightarrow>
             recommendation_tool_calls env analysis tcs
               (recommendations_result,
                additional_research @ ''Additional Research: '' @ search_result @ ''\<newline>''))
      else recommendation_tool_calls env analysis tcs (recommendations_result, additional_research))"

definition recommendations_to_dict :: "PatientRecommendation \<Rightarrow> recommendations_dict" where
  "recommendations_to_dict r =
     \<lparr>immediate_actions = Some (pr_immediate_actions r),
      general_care = Some (pr_general_care r),
      when_to_seek_help = Some (pr_when_to_seek_help r),
      follow_up = Some (pr_follow_up r)\<rparr>"

definition recommendations_update :: "PatientRecommendation \<Rightarrow> string \<Rightarrow> string \<Rightarrow> MedicalState" where
  "recommendations_update r research additional_research =
     no_update\<lparr>
       recommendations := Some (recommendations_to_dict r),
       medical_research :=
         Some (if additional_research \<noteq> [] then research @ ''\<newline>'' @ additional_research
               else research),
       messages := [AIMessage ''Comprehensive patient recommendations generated successfully'']\<rparr>"

definition create_recommendations_node :: "providers \<Rightarrow> MedicalState \<Rightarrow> node_result" where
  "create_recommendations_node env state =
     (let analysis = get_or (symptom_analysis state) empty_analysis;
          research = get_or (medical_research state) []
      in if analysis_is_empty analysis
         then Update (only_message ''No symptom analysis available for recommendations'')
         else
           (case llm_invoke env (recommendation_prompt analysis research) of
              Raises \<Rightarrow> Raise ProviderError
            | Returns response \<Rightarrow>
                (case recommendation_tool_calls env analysis (response_tool_calls response)
                        (None, []) of
                   Inl e \<Rightarrow> Raise e
                 | Inr (Some r, additional_research) \<Rightarrow>
                     Update (recommendations_update r research additional_research)
                 | Inr (None, additional_research) \<Rightarrow>
                     (case invoke_create_recommendations env analysis of
                        Inl e \<Rightarrow> Raise e
                      | Inr PyNone \<Rightarrow> Raise AttributeError
                      | Inr (Value r) \<Rightarrow>
                          Update (recommendations_update r research additional_research)))))"

definition recommendations_obj :: "recommendations_dict \<Rightarrow> PatientRecommendation" where
  "recommendations_obj r =
     \<lparr>pr_immediate_actions = get_or (immediate_actions r) [],
      pr_general_care = get_or (general_care r) [],
      pr_when_to_seek_help = get_or (when_to_seek_help r) [],
      pr_follow_up = get_or (follow_up r) (Value [])\<rparr>"

definition escalation_to_dict :: "EscalationAdvice \<Rightarrow> escalation_dict" where
  "escalation_to_dict response =
     \<lparr>urgency_message = Some (ea_urgency_message response),
      immediate_action = Some (ea_immediate_action response),
      warning_signs = Some (ea_warning_signs response),
      emergency_contact = Some (ea_emergency_contact response)\<rparr>"

definition escalation_advice_node :: "providers \<Rightarrow> MedicalState \<Rightarrow> node_result" where
  "escalation_advice_node env state =
     (let analysis = get_or (symptom_analysis state) empty_analysis;
          recs = get_or (recommendations state) empty_recommendations;
          urgency = get_or (urgency_level state) ''low''
      in if urgency \<noteq> ''urgent''
         then Update (only_message ''Case not urgent - escalation advice not needed'')
         else if analysis_is_empty analysis \<or> recommendations_is_empty recs
         then Update (only_message ''Insufficient data for escalation advice'')
         else
           (case symptom_analysis_obj analysis ''urgent'' of
              None \<Rightarrow> Raise ValidationError
            | Some obj \<Rightarrow>
                (case create_escalation_advice env obj (recommendations_obj recs) of
                   Raises \<Rightarrow> Raise ProviderError
                 | Returns PyNone \<Rightarrow> Raise AttributeError
                 | Returns (Value response) \<Rightarrow>
                     Update (no_update\<lparr>
                       escalation_advice := Some (escalation_to_dict response),
                       messages := [AIMessage ''Urgent escalation advice generated'']\<rparr>))))"

text \<open>
  The text of the report. \<open>symptoms_text\<close>, \<open>history_text\<close> and \<open>follow_up_text\<close> are the
  values read under \<open>symptoms\<close>, \<open>medical_history\<close> and \<open>follow_up\<close>, which the caller has
  checked to be strings.
\<close>

definition escalation_section :: "escalation_dict \<Rightarrow> string" where
  "escalation_section escalation =
     ''\<newline>## URGENT ESCALATION ADVICE\<newline>''
     @ ''**Urgency Message:** '' @ get_or (urgency_message escalation) ''N/A'' @ ''\<newline>''
     @ ''**Immediate Action:** '' @ get_or (immediate_action escalation) ''N/A'' @ ''\<newline>\<newline>''
     @ ''**Warning Signs:**\<newline>''
     @ numbered_lines (get_or (warning_signs escalation) [])
     @ ''\<newline>**Emergency Contact:** '' @ get_or (emergency_contact escalation) ''N/A'' @ ''\<newline>''"

definition disclaimer :: string where
  "disclaimer =
     ''\<newline>---\<newline>''
     @ ''**IMPORTANT DISCLAIMER:** This analysis is for educational purposes only and is NOT a substitute for professional medical advice, diagnosis, or treatment. Always consult healthcare professionals for medical concerns.\<newline>''"

definition report_content :: "datetime \<Rightarrow> string \<Rightarrow> string \<Rightarrow> MedicalState \<Rightarrow> string
    \<Rightarrow> string" where
  "report_content generated symptoms_text history_text state follow_up_text =
     (let analysis = get_or (symptom_analysis state) empty_analysis;
          recs = get_or (recommendations state) empty_recommendations;
          escalation = get_or (escalation_advice state) empty_escalation
      in ''# MediCheck AI - Medical Analysis Report\<newline>\<newline>''
         @ ''**Generated:** '' @ strftime_report generated @ ''\<newline>\<newline>''
         @ ''## Patient Information\<newline>''
         @ ''**Reported Symptoms:** '' @ symptoms_text @ ''\<newline>''
         @ ''**Medical History:** '' @ history_text @ ''\<newline>\<newline>''
         @ ''## Symptom Analysis\<newline>''
         @ ''**Summary:** '' @ get_or (symptom_summary analysis) ''N/A'' @ ''\<newline>\<newline>''
         @ ''**Possible Conditions:**\<newline>''
         @ numbered_lines (get_or (possible_conditions analysis) [])
         @ ''\<newline>**Urgency Level:** '' @ upper (get_or (analysis_urgency_level analysis) ''N/A'')
         @ ''\<newline>''
         @ ''**Reasoning:** '' @ get_or (reasoning analysis) ''N/A'' @ ''\<newline>\<newline>''
         @ ''## Recommendations\<newline>\<newline>''
         @ ''**Immediate Actions:**\<newline>''
         @ numbered_lines (get_or (immediate_actions recs) [])
         @ ''\<newline>**General Self-Care:**\<newline>''
         @ numbered_lines (get_or (general_care recs) [])
         @ ''\<newline>**When to Seek Help:** '' @ get_or (when_to_seek_help recs) ''N/A'' @ ''\<newline>''
         @ ''**Follow-up:** '' @ follow_up_text @ ''\<newline>''
         @ (if \<not> escalation_is_empty escalation then escalation_section escalation else [])
         @ disclaimer)"

text \<open>\<open>os.path.join("medical_reports", filename)\<close>, with the separator of a POSIX system.\<close>

definition report_path :: "string \<Rightarrow> string" where
  "report_path filename = ''medical_reports/'' @ filename"

text \<open>
  Joining a string with \<open>None\<close> fails with a type error: this is what happens when
  \<open>symptoms\<close>, \<open>medical_history\<close> or the \<open>follow_up\<close> of the recommendations holds \<open>None\<close>.
\<close>

definition generate_medical_report :: "providers \<Rightarrow> MedicalState \<Rightarrow> node_result" where
  "generate_medical_report env state =
     (case get_or (symptoms state) (Value []) of
        PyNone \<Rightarrow> Raise TypeError
      | Value symptoms_text \<Rightarrow>
     (case get_or (medical_history state) (Value []) of
        PyNone \<Rightarrow> Raise TypeError
      | Value history_text \<Rightarrow>
     (case get_or (follow_up (get_or (recommendations state) empty_recommendations))
             (Value ''N/A'') of
        PyNone \<Rightarrow> Raise TypeError
      | Value follow_up_text \<Rightarrow>
          (let content_text =
                 report_content (now_report env) symptoms_text history_text state follow_up_text;
               filename = report_filename (strftime_filename (now_filename env)) symptoms_text;
               filepath = report_path filename
           in if \<not> file_write env filepath content_text then Raise OSError
              else Update (no_update\<lparr>
                     final_report := Some content_text,
                     report_filepath := Some filepath,
                     messages := [AIMessage (''Medical analysis complete! Report saved to: '' @ filepath)]\<rparr>)))))"

definition should_escalate :: "MedicalState \<Rightarrow> string" where
  "should_escalate state =
     (if get_or (urgency_level state) ''low'' = ''urgent'' then ''escalation_advice_node''
      else ''generate_medical_report'')"

section \<open>The graph (medical_workflow.py)\<close>

datatype node =
    CollectPatientInfo
  | AnalyzeSymptomsNode
  | CollectMedicalHistory
  | CreateRecommendationsNode
  | EscalationAdviceNode
  | GenerateMedicalReport

fun node_name :: "node \<Rightarrow> string" where
  "node_name CollectPatientInfo = ''collect_patient_info''"
| "node_name AnalyzeSymptomsNode = ''analyze_symptoms_node''"
| "node_name CollectMedicalHistory = ''collect_medical_history''"
| "node_name CreateRecommendationsNode = ''create_recommendations_node''"
| "node_name EscalationAdviceNode = ''escalation_advice_node''"
| "node_name GenerateMedicalReport = ''generate_medical_report''"

text \<open>\<open>add_node\<close>: the function behind each node. Only the history node reads the resume value.\<close>

fun exec_node :: "providers \<Rightarrow> node \<Rightarrow> string option \<Rightarrow> MedicalState \<Rightarrow> node_result" where
  "exec_node env CollectPatientInfo resume state = collect_patient_info state"
| "exec_node env AnalyzeSymptomsNode resume state = analyze_symptoms_node env state"
| "exec_node env CollectMedicalHistory resume state = collect_medical_history state resume"
| "exec_node env CreateRecommendationsNode resume state = create_recommendations_node env state"
| "exec_node env EscalationAdviceNode resume state = escalation_advice_node env state"
| "exec_node env GenerateMedicalReport resume state = generate_medical_report env state"

datatype target = Goto node | END

text \<open>The dict given to \<open>add_conditional_edges\<close>.\<close>

definition path_map :: "(string \<times> node) list" where
  "path_map = [(''escalation_advice_node'', EscalationAdviceNode),
               (''generate_medical_report'', GenerateMedicalReport)]"

text \<open>
  \<open>add_edge\<close> and \<open>add_conditional_edges\<close>: where the run goes after a node, given the state
  with the node's update merged in. \<open>None\<close> is a routing result that the dict does not hold.
\<close>

fun next_target :: "node \<Rightarrow> MedicalState \<Rightarrow> target option" where
  "next_target CollectPatientInfo state = Some (Goto AnalyzeSymptomsNode)"
| "next_target AnalyzeSymptomsNode state = Some (Goto CollectMedicalHistory)"
| "next_target CollectMedicalHistory state = Some (Goto CreateRecommendationsNode)"
| "next_target CreateRecommendationsNode state = map_option Goto (map_of path_map (should_escalate state))"
| "next_target EscalationAdviceNode state = Some (Goto GenerateMedicalReport)"
| "next_target GenerateMedicalReport state = Some END"

text \<open>
  A run of the compiled graph, streamed in the mode that yields one event per finished node
  with the dict it returned, and one event for an interrupt. A node that interrupts or raises
  writes nothing; the state kept for the thread is the one the node was entered with.
\<close>

datatype event = NodeEvent node MedicalState | InterruptEvent string

datatype outcome = Finished | Suspended node | Failed node error

record run_result =
  events :: "event list"
  thread_values :: MedicalState
  outcome :: outcome

definition prepend_event :: "event \<Rightarrow> run_result \<Rightarrow> run_result" where
  "prepend_event ev r = r\<lparr>events := ev # events r\<rparr>"

fun rank :: "node \<Rightarrow> nat" where
  "rank CollectPatientInfo = 5"
| "rank AnalyzeSymptomsNode = 4"
| "rank CollectMedicalHistory = 3"
| "rank CreateRecommendationsNode = 2"
| "rank EscalationAdviceNode = 1"
| "rank GenerateMedicalReport = 0"

function run_from :: "providers \<Rightarrow> node \<Rightarrow> string option \<Rightarrow> MedicalState \<Rightarrow> run_result" where
  "run_from env n resume state =
     (case exec_node env n resume state of
        Raise e \<Rightarrow> \<lparr>events = [], thread_values = state, outcome = Failed n e\<rparr>
      | Interrupt payload \<Rightarrow>
          \<lparr>events = [InterruptEvent payload], thread_values = state, outcome = Suspended n\<rparr>
      | Update u \<Rightarrow>
          (case next_target n (apply_update state u) of
             None \<Rightarrow> \<lparr>events = [], thread_values = state, outcome = Failed n KeyError\<rparr>
           | Some END \<Rightarrow>
               \<lparr>events = [NodeEvent n u], thread_values = apply_update state u, outcome = Finished\<rparr>
           | Some (Goto n') \<Rightarrow>
               prepend_event (NodeEvent n u) (run_from env n' None (apply_update state u))))"
  by pat_completeness auto
termination
proof (relation "measure (\<lambda>(env, n, resume, state). rank n)")
  show "wf (measure (\<lambda>(env, n, resume, state). rank n))" by simp
next
  fix env :: providers and n :: node and resume :: "string option" and state u :: MedicalState
    and x n'
  assume "next_target n (apply_update state u) = Some x" and "x = Goto n'"
  then have "rank n' < rank n"
    by (cases n) (auto simp: path_map_def should_escalate_def split: if_splits)
  then show "((env, n', None, apply_update state u), (env, n, resume, state))
      \<in> measure (\<lambda>(env, n, resume, state). rank n)"
    by simp
qed

declare run_from.simps [simp del]

text \<open>
  The input of a run: the keys of \<open>MedicalInputState\<close>. A key may be absent, or, being
  \<open>Optional[str]\<close>, present with \<open>None\<close>.
\<close>

record MedicalInputState =
  input_messages :: "message list"
  input_symptoms :: "string or_none option"
  input_medical_history :: "string or_none option"

text \<open>
  The graph is compiled with a checkpointer that keeps, for each thread id, the state the
  last stream on that thread left. A thread that has not been used holds no key.
\<close>

definition empty_thread :: MedicalState where
  "empty_thread = no_update"

text \<open>
  \<open>stream(input, config=thread)\<close>: the input is merged into the state kept for the thread,
  like the dict a node returns, and the run enters the first node
  (\<open>add_edge(START, "collect_patient_info")\<close>), also when the thread was suspended or had
  finished.
\<close>

definition merge_input :: "MedicalState \<Rightarrow> MedicalInputState \<Rightarrow> MedicalState" where
  "merge_input kept inp =
     apply_update kept
       (no_update\<lparr>messages := input_messages inp, symptoms := input_symptoms inp,
          medical_history := input_medical_history inp\<rparr>)"

definition stream_start :: "providers \<Rightarrow> MedicalState \<Rightarrow> MedicalInputState \<Rightarrow> run_result" where
  "stream_start env kept inp = run_from env CollectPatientInfo None (merge_input kept inp)"

text \<open>
  \<open>stream(Command(resume=user_input))\<close> on a thread that waits at node \<open>n\<close>: the node is
  entered again from the kept state, with the resume value.
\<close>

definition stream_resume :: "providers \<Rightarrow> string \<Rightarrow> node \<Rightarrow> MedicalState \<Rightarrow> run_result" where
  "stream_resume env user_input n state = run_from env n (Some user_input) state"

section \<open>The drivers\<close>

text \<open>
  After a stream both drivers ask the thread for its pending node and resume only when there
  is one. The events of both streams are kept in order.
\<close>

definition resume_if_pending :: "providers \<Rightarrow> string \<Rightarrow> run_result \<Rightarrow> run_result" where
  "resume_if_pending env user_input r =
     (case outcome r of
        Suspended n \<Rightarrow>
          (let r' = stream_resume env user_input n (thread_values r)
           in r'\<lparr>events := events r @ events r'\<rparr>)
      | _ \<Rightarrow> r)"

text \<open>
  A stream of an input on a thread that holds \<open>kept\<close>, followed by the resume. The console
  driver does this once, on a thread of its own process; the web driver does it on the one
  thread id it uses for every analysis, each time its script runs, so \<open>kept\<close> is there what
  the earlier streams on that thread left.
\<close>

definition run_session :: "providers \<Rightarrow> MedicalState \<Rightarrow> MedicalInputState \<Rightarrow> string
    \<Rightarrow> run_result" where
  "run_session env kept inp user_input = resume_if_pending env user_input (stream_start env kept inp)"

text \<open>
  \<open>main\<close> of main.py refuses blank symptoms before it starts the workflow (\<open>None\<close>), and
  otherwise passes the symptoms as the message and as \<open>symptoms\<close>.
\<close>

definition console_input :: "string \<Rightarrow> MedicalInputState" where
  "console_input symptoms_text =
     \<lparr>input_messages = [HumanMessage symptoms_text],
      input_symptoms = Some (Value symptoms_text),
      input_medical_history = Some (Value ''No medical history provided'')\<rparr>"

definition main :: "providers \<Rightarrow> string \<Rightarrow> string \<Rightarrow> run_result option" where
  "main env symptoms_text user_input =
     (if strip symptoms_text = [] then None
      else Some (run_session env empty_thread (console_input symptoms_text) user_input))"

text \<open>The label a streamed event carries.\<close>

fun event_label :: "event \<Rightarrow> string" where
  "event_label (NodeEvent n u) = node_name n"
| "event_label (InterruptEvent payload) = ''__interrupt__''"

section \<open>Observing a run\<close>

text \<open>The labels of the streamed events, in order.\<close>

definition labels :: "run_result \<Rightarrow> string list" where
  "labels r = map event_label (events r)"


text \<open>
  The labels of the nodes from a node of the second half of the graph to the end, given
  whether the state is urgent.
\<close>

fun expected_tail :: "node \<Rightarrow> bool \<Rightarrow> string list" where
  "expected_tail GenerateMedicalReport urgent = [''generate_medical_report'']"
| "expected_tail EscalationAdviceNode urgent = [''escalation_advice_node'', ''generate_medical_report'']"
| "expected_tail CreateRecommendationsNode urgent =
     ''create_recommendations_node''
       # (if urgent then [''escalation_advice_node''] else []) @ [''generate_medical_report'']"
| "expected_tail CollectMedicalHistory urgent =
     ''collect_medical_history'' # ''create_recommendations_node''
       # (if urgent then [''escalation_advice_node''] else []) @ [''generate_medical_report'']"
| "expected_tail n urgent = []"

text \<open>
  The text the analysis step will read as symptoms when an input is streamed on a thread: the
  first node stores the content of the last message when the thread then has one, and
  otherwise leaves what is under \<open>symptoms\<close>; an absent key and \<open>None\<close> read as empty.
\<close>

definition text_of :: "string or_none option \<Rightarrow> string" where
  "text_of v = (case v of Some (Value text) \<Rightarrow> text | _ \<Rightarrow> [])"

definition symptoms_read :: "MedicalState \<Rightarrow> MedicalInputState \<Rightarrow> string" where
  "symptoms_read kept inp =
     (if messages (merge_input kept inp) \<noteq> []
      then message_content (last (messages (merge_input kept inp)))
      else text_of (symptoms (merge_input kept inp)))"

text \<open>The state after the first node, and after the analysis node.\<close>

definition after_patient_info :: "MedicalState \<Rightarrow> MedicalInputState \<Rightarrow> MedicalState" where
  "after_patient_info kept inp =
     (case collect_patient_info (merge_input kept inp) of
        Update u \<Rightarrow> apply_update (merge_input kept inp) u | _ \<Rightarrow> merge_input kept inp)"

definition after_analysis :: "providers \<Rightarrow> MedicalState \<Rightarrow> MedicalInputState \<Rightarrow> MedicalState" where
  "after_analysis env kept inp =
     (case analyze_symptoms_node env (after_patient_info kept inp) of
        Update u \<Rightarrow> apply_update (after_patient_info kept inp) u
      | _ \<Rightarrow> after_patient_info kept inp)"

text \<open>
  What every state of a thread satisfies: an urgency is stored only together with an analysis
  (the analysis node writes both, and nothing else writes either).
\<close>

definition urgency_has_analysis :: "MedicalState \<Rightarrow> bool" where
  "urgency_has_analysis state =
     (urgency_level state \<noteq> None
      \<longrightarrow> \<not> analysis_is_empty (get_or (symptom_analysis state) empty_analysis))"

text \<open>Inputs used to run the definitions on concrete values.\<close>

definition noon :: datetime where
  "noon = \<lparr>year = 2024, month = 1, day = 1, hour = 12, minute = 0, second = 0\<rparr>"

text \<open>An environment in which every provider call raises; only the file write goes through.\<close>

definition failing_env :: providers where
  "failing_env =
     \<lparr>llm_invoke = (\<lambda>prompt. Raises), analyze_symptoms = (\<lambda>args. Raises),
      tavily_search = (\<lambda>args. Raises), create_recommendations = (\<lambda>a. Raises),
      create_escalation_advice = (\<lambda>a r. Raises),
      now_report = noon, now_filename = noon, file_write = (\<lambda>path text. True)\<rparr>"

text \<open>
  An environment whose providers answer with fixed values; the model calls no tool. The
  analysis is urgent for the symptoms \<open>chest pain\<close> and low for any other.
\<close>

definition sample_analysis :: "urgency \<Rightarrow> SymptomAnalysis" where
  "sample_analysis u =
     \<lparr>sa_symptom_summary = ''chest pain'', sa_possible_conditions = [''angina''],
      sa_urgency_level = u, sa_reasoning = ''pain on exertion''\<rparr>"

definition sample_recommendation :: PatientRecommendation where
  "sample_recommendation =
     \<lparr>pr_immediate_actions = [''rest''], pr_general_care = [''fluids''],
      pr_when_to_seek_help = ''if the pain persists'', pr_follow_up = Value ''in a week''\<rparr>"

definition sample_escalation :: EscalationAdvice where
  "sample_escalation =
     \<lparr>ea_urgency_message = ''seek care now'', ea_immediate_action = ''call an ambulance'',
      ea_warning_signs = [''fainting''], ea_emergency_contact = ''emergency number''\<rparr>"

definition triage :: "(string \<times> string) list \<Rightarrow> urgency" where
  "triage args = (if map_of args ''symptoms'' = Some ''chest pain'' then Urgent else Low)"

definition stub_env :: providers where
  "stub_env =
     \<lparr>llm_invoke = (\<lambda>prompt. Returns (Value [])),
      analyze_symptoms = (\<lambda>args. Returns (Value (sample_analysis (triage args)))),
      tavily_search = (\<lambda>args. Returns (Value ''note'')),
      create_recommendations = (\<lambda>a. Returns (Value sample_recommendation)),
      create_escalation_advice = (\<lambda>a r. Returns (Value sample_escalation)),
      now_report = noon, now_filename = noon, file_write = (\<lambda>path text. True)\<rparr>"

definition sample_input :: MedicalInputState where
  "sample_input = console_input ''chest pain''"

definition mild_input :: MedicalInputState where
  "mild_input = console_input ''mild headache''"

definition empty_input :: MedicalInputState where
  "empty_input = \<lparr>input_messages = [], input_symptoms = None, input_medical_history = None\<rparr>"

text \<open>An input whose \<open>symptoms\<close> key is present and holds \<open>None\<close>.\<close>

definition none_input :: MedicalInputState where
  "none_input =
     \<lparr>input_messages = [], input_symptoms = Some PyNone, input_medical_history = None\<rparr>"

text \<open>A state as the analysis node leaves it, with a low urgency and no research.\<close>

definition analysed_state :: MedicalState where
  "analysed_state =
     no_update\<lparr>symptom_analysis := Some (analysis_to_dict (sample_analysis Low)),
       urgency_level := Some ''low'',
       medical_research := Some ''No additional research needed''\<rparr>"

text \<open>The state a finished urgent run of the console input leaves on its thread.\<close>

definition urgent_thread :: MedicalState where
  "urgent_thread = thread_values (run_session stub_env empty_thread sample_input ''no'')"

section \<open>Properties of the string helpers\<close>











section \<open>The report file name\<close>




section \<open>Deduplication of search results\<close>

lemma map_of_snoc:
  "map_of (acc @ [(k, v)]) u =
     (case map_of acc u of Some x \<Rightarrow> Some x | None \<Rightarrow> if k = u then Some v else None)"
  by (induction acc) auto

lemma find_append_first:
  "find P (xs @ ys) = (case find P xs of Some x \<Rightarrow> Some x | None \<Rightarrow> find P ys)"
  by (induction xs) auto

lemma map_of_add_results:
  "map_of (add_results acc rs) u =
     (case map_of acc u of Some r \<Rightarrow> Some r | None \<Rightarrow> find (\<lambda>r. url r = u) rs)"
proof (induction rs arbitrary: acc)
  case Nil
  show ?case by (simp split: option.splits)
next
  case (Cons r rs)
  show ?case
  proof (cases "url r \<in> fst ` set acc")
    case True
    then have "map_of acc (url r) \<noteq> None" by (simp add: map_of_eq_None_iff)
    then show ?thesis using True by (auto simp: Cons.IH split: option.splits)
  next
    case False
    then have "map_of acc (url r) = None" by (simp add: map_of_eq_None_iff)
    then show ?thesis using False
      by (auto simp: Cons.IH map_of_snoc split: option.splits)
  qed
qed

lemma keys_add_results:
  "fst ` set (add_results acc rs) = fst ` set acc \<union> url ` set rs"
  by (induction rs arbitrary: acc) auto

lemma distinct_add_results:
  "distinct (map fst acc) \<Longrightarrow> distinct (map fst (add_results acc rs))"
  by (induction rs arbitrary: acc) auto

lemma map_of_add_responses:
  "map_of (add_responses acc rsp) u =
     (case map_of acc u of Some r \<Rightarrow> Some r
      | None \<Rightarrow> find (\<lambda>r. url r = u) (all_results rsp))"
  by (induction rsp arbitrary: acc)
     (auto simp: all_results_def map_of_add_results find_append_first split: option.splits)

lemma keys_add_responses:
  "fst ` set (add_responses acc rsp) = fst ` set acc \<union> url ` set (all_results rsp)"
  by (induction rsp arbitrary: acc) (auto simp: all_results_def keys_add_results)

lemma distinct_add_responses:
  "distinct (map fst acc) \<Longrightarrow> distinct (map fst (add_responses acc rsp))"
  by (induction rsp arbitrary: acc) (auto simp: distinct_add_results)

text \<open>
  C10. For every list of search responses, the returned mapping has pairwise distinct keys,
  its keys are exactly the URLs that occur among the results, the entry under a URL is the
  first result with that URL in response order, and its size is the number of distinct URLs:
  every later result with a URL already seen is dropped.
\<close>

theorem deduplicate_first_wins:
  "distinct (map fst (deduplicate_search_results rsp))
   \<and> fst ` set (deduplicate_search_results rsp) = url ` set (all_results rsp)
   \<and> map_of (deduplicate_search_results rsp)
       = (\<lambda>u. find (\<lambda>r. url r = u) (all_results rsp))
   \<and> length (deduplicate_search_results rsp) = card (url ` set (all_results rsp))"
proof -
  let ?D = "deduplicate_search_results rsp"
  have d: "distinct (map fst ?D)"
    by (simp add: deduplicate_search_results_def distinct_add_responses)
  have k: "fst ` set ?D = url ` set (all_results rsp)"
    by (simp add: deduplicate_search_results_def keys_add_responses)
  have m: "map_of ?D = (\<lambda>u. find (\<lambda>r. url r = u) (all_results rsp))"
    by (rule ext) (simp add: deduplicate_search_results_def map_of_add_responses)
  have "length ?D = length (map fst ?D)" by simp
  also have "\<dots> = card (set (map fst ?D))" using d by (simp only: distinct_card)
  also have "\<dots> = card (url ` set (all_results rsp))" using k by simp
  finally show ?thesis using d k m by blast
qed

section \<open>What each node writes\<close>

lemma get_or_simps [simp]:
  "get_or None d = d"
  "get_or (Some x) d = x"
  by (simp_all add: get_or_def)

lemma apply_update_fields [simp]:
  "messages (apply_update s u) = messages s @ messages u"
  "symptoms (apply_update s u) = last_value (symptoms s) (symptoms u)"
  "medical_history (apply_update s u) = last_value (medical_history s) (medical_history u)"
  "symptom_analysis (apply_update s u) = last_value (symptom_analysis s) (symptom_analysis u)"
  "medical_research (apply_update s u) = last_value (medical_research s) (medical_research u)"
  "recommendations (apply_update s u) = last_value (recommendations s) (recommendations u)"
  "escalation_advice (apply_update s u) = last_value (escalation_advice s) (escalation_advice u)"
  "urgency_level (apply_update s u) = last_value (urgency_level s) (urgency_level u)"
  "final_report (apply_update s u) = last_value (final_report s) (final_report u)"
  "report_filepath (apply_update s u) = last_value (report_filepath s) (report_filepath u)"
  by (simp_all add: apply_update_def add_messages_def)

lemma last_value_simps [simp]:
  "last_value old None = old"
  "last_value old (Some v) = Some v"
  by (simp_all add: last_value_def)

lemma last_value_None [simp]: "last_value None new = new"
  by (simp add: last_value_def split: option.splits)

lemma only_message_fields [simp]:
  "messages (only_message t) = [AIMessage t]"
  "symptoms (only_message t) = None"
  "medical_history (only_message t) = None"
  "symptom_analysis (only_message t) = None"
  "medical_research (only_message t) = None"
  "recommendations (only_message t) = None"
  "escalation_advice (only_message t) = None"
  "urgency_level (only_message t) = None"
  "final_report (only_message t) = None"
  "report_filepath (only_message t) = None"
  by (simp_all add: only_message_def no_update_def)

lemma apply_only_message:
  "apply_update s (only_message t) = s\<lparr>messages := messages s @ [AIMessage t]\<rparr>"
  by (simp add: apply_update_def only_message_def no_update_def add_messages_def last_value_def)

lemma collect_patient_info_update:
  "\<exists>u. collect_patient_info s = Update u \<and> symptom_analysis u = None \<and> medical_research u = None
     \<and> recommendations u = None \<and> escalation_advice u = None \<and> urgency_level u = None
     \<and> final_report u = None \<and> report_filepath u = None"
  by (simp add: collect_patient_info_def no_update_def)

lemma text_of_simps [simp]:
  "text_of None = []"
  "text_of (Some PyNone) = []"
  "text_of (Some (Value text)) = text"
  by (simp_all add: text_of_def)

lemma analyze_empty:
  "text_of (symptoms s) = [] \<Longrightarrow>
   analyze_symptoms_node env s = Update (only_message ''No symptoms provided for analysis'')"
  by (auto simp: analyze_symptoms_node_def text_of_def get_or_def
      split: option.splits or_none.splits)

lemma analyze_cases:
  assumes "analyze_symptoms_node env s = Update u"
  shows "(text_of (symptoms s) = [] \<and> u = only_message ''No symptoms provided for analysis'')
       \<or> (text_of (symptoms s) \<noteq> [] \<and> (\<exists>a info. u = analysis_update a info))"
  using assms
  by (auto simp: analyze_symptoms_node_def text_of_def get_or_def
      split: if_splits option.splits prod.splits or_none.splits reply.splits sum.splits)

lemma analyze_no_interrupt: "analyze_symptoms_node env s \<noteq> Interrupt p"
  by (auto simp: analyze_symptoms_node_def
      split: if_splits option.splits prod.splits or_none.splits reply.splits sum.splits)

lemma history_cases:
  assumes "collect_medical_history s resume = Update u"
  shows "(analysis_is_empty (get_or (symptom_analysis s) empty_analysis)
            \<and> u = only_message ''No symptom analysis available for medical history collection'')
       \<or> (\<not> analysis_is_empty (get_or (symptom_analysis s) empty_analysis)
            \<and> (\<exists>v. resume = Some v \<and> u = process_user_input v))"
  using assms
  by (auto simp: collect_medical_history_def Let_def split: if_splits option.splits)

lemma history_interrupt_iff:
  "(collect_medical_history s resume = Interrupt p)
     = (resume = None \<and> \<not> analysis_is_empty (get_or (symptom_analysis s) empty_analysis)
        \<and> p = interrupt_message (get_or (symptom_analysis s) empty_analysis))"
  by (auto simp: collect_medical_history_def Let_def split: if_splits option.splits)

lemma recommendations_cases:
  assumes "create_recommendations_node env s = Update u"
  shows "(analysis_is_empty (get_or (symptom_analysis s) empty_analysis)
            \<and> u = only_message ''No symptom analysis available for recommendations'')
       \<or> (\<not> analysis_is_empty (get_or (symptom_analysis s) empty_analysis)
            \<and> (\<exists>r extra. u = recommendations_update r (get_or (medical_research s) []) extra))"
  using assms
  by (auto simp: create_recommendations_node_def Let_def
      split: if_splits option.splits prod.splits sum.splits or_none.splits reply.splits)

lemma recommendations_no_interrupt: "create_recommendations_node env s \<noteq> Interrupt p"
  by (auto simp: create_recommendations_node_def Let_def
      split: if_splits option.splits prod.splits sum.splits or_none.splits reply.splits)

lemma escalation_cases:
  assumes "escalation_advice_node env s = Update u"
  shows "(urgency_level s \<noteq> Some ''urgent''
            \<and> u = only_message ''Case not urgent - escalation advice not needed'')
       \<or> (urgency_level s = Some ''urgent''
            \<and> (analysis_is_empty (get_or (symptom_analysis s) empty_analysis)
                 \<or> recommendations_is_empty (get_or (recommendations s) empty_recommendations))
            \<and> u = only_message ''Insufficient data for escalation advice'')
       \<or> (urgency_level s = Some ''urgent''
            \<and> \<not> analysis_is_empty (get_or (symptom_analysis s) empty_analysis)
            \<and> \<not> recommendations_is_empty (get_or (recommendations s) empty_recommendations)
            \<and> (\<exists>response. u = no_update\<lparr>
                   escalation_advice := Some (escalation_to_dict response),
                   messages := [AIMessage ''Urgent escalation advice generated'']\<rparr>))"
  using assms
  by (auto simp: escalation_advice_node_def Let_def get_or_def
      split: if_splits option.splits or_none.splits reply.splits)

lemma escalation_no_interrupt: "escalation_advice_node env s \<noteq> Interrupt p"
  by (auto simp: escalation_advice_node_def Let_def
      split: if_splits option.splits or_none.splits reply.splits)

lemma report_cases:
  assumes "generate_medical_report env s = Update u"
  shows "\<exists>text path. u = no_update\<lparr>final_report := Some text, report_filepath := Some path,
            messages := [AIMessage (''Medical analysis complete! Report saved to: '' @ path)]\<rparr>"
  using assms
  by (auto simp: generate_medical_report_def Let_def
      split: if_splits option.splits or_none.splits)

lemma report_no_interrupt: "generate_medical_report env s \<noteq> Interrupt p"
  by (auto simp: generate_medical_report_def Let_def
      split: if_splits option.splits or_none.splits)

lemma analysis_update_fields [simp]:
  "symptom_analysis (analysis_update a info) = Some (analysis_to_dict a)"
  "urgency_level (analysis_update a info) = Some (urgency_str (sa_urgency_level a))"
  "medical_research (analysis_update a info)
     = Some (if info \<noteq> [] then info else ''No additional research needed'')"
  "symptoms (analysis_update a info) = None"
  "medical_history (analysis_update a info) = None"
  "recommendations (analysis_update a info) = None"
  "escalation_advice (analysis_update a info) = None"
  "final_report (analysis_update a info) = None"
  "report_filepath (analysis_update a info) = None"
  by (simp_all add: analysis_update_def no_update_def)

lemma recommendations_update_fields [simp]:
  "recommendations (recommendations_update r research extra) = Some (recommendations_to_dict r)"
  "medical_research (recommendations_update r research extra)
     = Some (if extra \<noteq> [] then research @ ''\<newline>'' @ extra else research)"
  "symptoms (recommendations_update r research extra) = None"
  "medical_history (recommendations_update r research extra) = None"
  "symptom_analysis (recommendations_update r research extra) = None"
  "urgency_level (recommendations_update r research extra) = None"
  "escalation_advice (recommendations_update r research extra) = None"
  "final_report (recommendations_update r research extra) = None"
  "report_filepath (recommendations_update r research extra) = None"
  by (simp_all add: recommendations_update_def no_update_def)

lemma process_user_input_fields [simp]:
  "symptoms (process_user_input v) = None"
  "symptom_analysis (process_user_input v) = None"
  "medical_research (process_user_input v) = None"
  "recommendations (process_user_input v) = None"
  "escalation_advice (process_user_input v) = None"
  "urgency_level (process_user_input v) = None"
  "final_report (process_user_input v) = None"
  "report_filepath (process_user_input v) = None"
  by (simp_all add: process_user_input_def no_update_def)

lemma analysis_to_dict_not_empty [simp]: "\<not> analysis_is_empty (analysis_to_dict a)"
  by (simp add: analysis_is_empty_def analysis_to_dict_def empty_analysis_def)

lemma recommendations_to_dict_not_empty [simp]: "\<not> recommendations_is_empty (recommendations_to_dict r)"
  by (simp add: recommendations_is_empty_def recommendations_to_dict_def empty_recommendations_def)

lemma escalation_to_dict_not_empty [simp]: "\<not> escalation_is_empty (escalation_to_dict e)"
  by (simp add: escalation_is_empty_def escalation_to_dict_def empty_escalation_def)

lemma exec_writes:
  assumes "exec_node env n resume s = Update u"
  shows "(symptoms u \<noteq> None \<longrightarrow> n = CollectPatientInfo)
       \<and> (medical_history u \<noteq> None \<longrightarrow> n = CollectPatientInfo \<or> n = CollectMedicalHistory)
       \<and> (symptom_analysis u \<noteq> None \<longrightarrow> n = AnalyzeSymptomsNode)
       \<and> (urgency_level u \<noteq> None \<longrightarrow> n = AnalyzeSymptomsNode)
       \<and> (medical_research u \<noteq> None \<longrightarrow> n = AnalyzeSymptomsNode \<or> n = CreateRecommendationsNode)
       \<and> (recommendations u \<noteq> None \<longrightarrow> n = CreateRecommendationsNode)
       \<and> (escalation_advice u \<noteq> None \<longrightarrow> n = EscalationAdviceNode)
       \<and> (final_report u \<noteq> None \<longrightarrow> n = GenerateMedicalReport)
       \<and> (report_filepath u \<noteq> None \<longrightarrow> n = GenerateMedicalReport)"
proof (cases n)
  case CollectPatientInfo
  then show ?thesis using assms collect_patient_info_update [of s] by auto
next
  case AnalyzeSymptomsNode
  then show ?thesis using assms analyze_cases [of env s u] by auto
next
  case CollectMedicalHistory
  then show ?thesis using assms history_cases [of s resume u] by auto
next
  case CreateRecommendationsNode
  then show ?thesis using assms recommendations_cases [of env s u] by auto
next
  case EscalationAdviceNode
  then show ?thesis using assms escalation_cases [of env s u] by (auto simp: no_update_def)
next
  case GenerateMedicalReport
  then show ?thesis using assms report_cases [of env s u] by (auto simp: no_update_def)
qed

section \<open>Runs of the graph\<close>

lemma prepend_event_fields [simp]:
  "events (prepend_event e r) = e # events r"
  "thread_values (prepend_event e r) = thread_values r"
  "outcome (prepend_event e r) = outcome r"
  by (simp_all add: prepend_event_def)

lemma next_target_total:
  "next_target n s = Some END \<and> n = GenerateMedicalReport
   \<or> (\<exists>n'. next_target n s = Some (Goto n') \<and> rank n' < rank n \<and> n \<noteq> GenerateMedicalReport)"
  by (cases n) (auto simp: path_map_def should_escalate_def)

lemma exec_interrupt_iff:
  "(exec_node env n resume s = Interrupt p)
     = (n = CollectMedicalHistory \<and> resume = None
        \<and> \<not> analysis_is_empty (get_or (symptom_analysis s) empty_analysis)
        \<and> p = interrupt_message (get_or (symptom_analysis s) empty_analysis))"
  by (cases n)
     (auto simp: history_interrupt_iff analyze_no_interrupt recommendations_no_interrupt
        escalation_no_interrupt report_no_interrupt collect_patient_info_def)


lemma suspended_only_history:
  "outcome (run_from env n resume s) = Suspended m \<Longrightarrow> m = CollectMedicalHistory \<and> 3 \<le> rank n"
proof (induction env n resume s rule: run_from.induct)
  case (1 env n resume s)
  show ?case
  proof (cases "exec_node env n resume s")
    case (Update u)
    from next_target_total [of n "apply_update s u"] show ?thesis
    proof (elim disjE conjE exE)
      assume "next_target n (apply_update s u) = Some END"
      then show ?thesis using Update 1(2) by (subst (asm) run_from.simps) simp
    next
      fix n' assume n': "next_target n (apply_update s u) = Some (Goto n')" and r: "rank n' < rank n"
      have "outcome (run_from env n' None (apply_update s u)) = Suspended m"
        using 1(2) Update n' by (subst (asm) run_from.simps) simp
      from 1(1) [OF Update n' refl this] show ?thesis using r by simp
    qed
  next
    case (Interrupt p)
    then have "n = CollectMedicalHistory" by (simp add: exec_interrupt_iff)
    then show ?thesis using Interrupt 1(2) by (subst (asm) run_from.simps) simp
  next
    case (Raise e)
    then show ?thesis using 1(2) by (subst (asm) run_from.simps) simp
  qed
qed

lemma route:
  "map_of path_map (should_escalate s) =
     Some (if urgency_level s = Some ''urgent'' then EscalationAdviceNode else GenerateMedicalReport)"
  by (auto simp: path_map_def should_escalate_def get_or_def split: option.splits)

lemma tail_labels:
  "rank n \<le> 3 \<Longrightarrow> outcome (run_from env n resume s) = Finished \<Longrightarrow>
     labels (run_from env n resume s) = expected_tail n (urgency_level s = Some ''urgent'')
     \<and> urgency_level (thread_values (run_from env n resume s)) = urgency_level s
     \<and> symptom_analysis (thread_values (run_from env n resume s)) = symptom_analysis s"
proof (induction env n resume s rule: run_from.induct)
  case (1 env n resume s)
  show ?case
  proof (cases "exec_node env n resume s")
    case (Update u)
    have n: "n \<noteq> AnalyzeSymptomsNode" using 1(2) by auto
    have w: "urgency_level u = None" "symptom_analysis u = None"
      using exec_writes [OF Update] n by auto
    from next_target_total [of n "apply_update s u"] show ?thesis
    proof (elim disjE conjE exE)
      assume "next_target n (apply_update s u) = Some END" and "n = GenerateMedicalReport"
      then show ?thesis using Update w by (subst (1 2 3) run_from.simps) (simp add: labels_def)
    next
      fix n' assume n': "next_target n (apply_update s u) = Some (Goto n')" and r: "rank n' < rank n"
      have eq: "run_from env n resume s
          = prepend_event (NodeEvent n u) (run_from env n' None (apply_update s u))"
        using Update n' by (subst run_from.simps) simp
      have fin: "outcome (run_from env n' None (apply_update s u)) = Finished"
        using 1(3) eq by simp
      have r': "rank n' \<le> 3" using r 1(2) by simp
      note ih = 1(1) [OF Update n' refl r' fin]
      have "node_name n # expected_tail n' (urgency_level s = Some ''urgent'')
          = expected_tail n (urgency_level s = Some ''urgent'')"
        using n' 1(2) w
        by (cases n) (auto simp: route split: if_splits)
      then show ?thesis using ih w by (simp add: eq labels_def)
    qed
  next
    case (Interrupt p)
    then show ?thesis using 1(3) by (subst (asm) run_from.simps) simp
  next
    case (Raise e)
    then show ?thesis using 1(3) by (subst (asm) run_from.simps) simp
  qed
qed



lemma run_step:
  "exec_node env n resume s = Update u \<Longrightarrow> next_target n (apply_update s u) = Some (Goto n') \<Longrightarrow>
   run_from env n resume s = prepend_event (NodeEvent n u) (run_from env n' None (apply_update s u))"
  by (subst run_from.simps) simp

lemma run_end:
  "exec_node env n resume s = Update u \<Longrightarrow> next_target n (apply_update s u) = Some END \<Longrightarrow>
   run_from env n resume s
     = \<lparr>events = [NodeEvent n u], thread_values = apply_update s u, outcome = Finished\<rparr>"
  by (subst run_from.simps) simp


lemma run_raise:
  "exec_node env n resume s = Raise e \<Longrightarrow>
   run_from env n resume s = \<lparr>events = [], thread_values = s, outcome = Failed n e\<rparr>"
  by (subst run_from.simps) simp






lemma empty_analysis_is_empty [simp]: "analysis_is_empty empty_analysis"
  by (simp add: analysis_is_empty_def)

lemma merge_input_fields [simp]:
  "messages (merge_input kept inp) = messages kept @ input_messages inp"
  "symptoms (merge_input kept inp) = last_value (symptoms kept) (input_symptoms inp)"
  "medical_history (merge_input kept inp)
     = last_value (medical_history kept) (input_medical_history inp)"
  "symptom_analysis (merge_input kept inp) = symptom_analysis kept"
  "medical_research (merge_input kept inp) = medical_research kept"
  "recommendations (merge_input kept inp) = recommendations kept"
  "escalation_advice (merge_input kept inp) = escalation_advice kept"
  "urgency_level (merge_input kept inp) = urgency_level kept"
  "final_report (merge_input kept inp) = final_report kept"
  "report_filepath (merge_input kept inp) = report_filepath kept"
  by (simp_all add: merge_input_def no_update_def)

lemma empty_thread_fields [simp]:
  "messages empty_thread = []"
  "symptoms empty_thread = None"
  "medical_history empty_thread = None"
  "symptom_analysis empty_thread = None"
  "medical_research empty_thread = None"
  "recommendations empty_thread = None"
  "escalation_advice empty_thread = None"
  "urgency_level empty_thread = None"
  "final_report empty_thread = None"
  "report_filepath empty_thread = None"
  by (simp_all add: empty_thread_def no_update_def)

lemma after_patient_info_fields [simp]:
  "symptom_analysis (after_patient_info kept inp) = symptom_analysis kept"
  "medical_research (after_patient_info kept inp) = medical_research kept"
  "recommendations (after_patient_info kept inp) = recommendations kept"
  "escalation_advice (after_patient_info kept inp) = escalation_advice kept"
  "urgency_level (after_patient_info kept inp) = urgency_level kept"
  "final_report (after_patient_info kept inp) = final_report kept"
  "text_of (symptoms (after_patient_info kept inp)) = symptoms_read kept inp"
  using collect_patient_info_update [of "merge_input kept inp"]
  by (auto simp: after_patient_info_def symptoms_read_def collect_patient_info_def
      no_update_def only_message_def)

lemma stream_start_unfold:
  "stream_start env kept inp =
     (case collect_patient_info (merge_input kept inp) of
        Update u \<Rightarrow> prepend_event (NodeEvent CollectPatientInfo u)
                      (run_from env AnalyzeSymptomsNode None (after_patient_info kept inp))
      | Interrupt p \<Rightarrow> \<lparr>events = [InterruptEvent p], thread_values = merge_input kept inp,
                         outcome = Suspended CollectPatientInfo\<rparr>
      | Raise e \<Rightarrow> \<lparr>events = [], thread_values = merge_input kept inp,
                     outcome = Failed CollectPatientInfo e\<rparr>)"
  unfolding stream_start_def after_patient_info_def
  by (subst run_from.simps) (simp split: node_result.splits)

lemma after_analysis_fields:
  assumes "analyze_symptoms_node env (after_patient_info kept inp) = Update u"
  shows "escalation_advice (after_analysis env kept inp) = escalation_advice kept"
    and "final_report (after_analysis env kept inp) = final_report kept"
    and "recommendations (after_analysis env kept inp) = recommendations kept"
    and "analysis_is_empty (get_or (symptom_analysis (after_analysis env kept inp)) empty_analysis)
           = (symptoms_read kept inp = []
              \<and> analysis_is_empty (get_or (symptom_analysis kept) empty_analysis))"
    and "symptoms_read kept inp = [] \<Longrightarrow>
           urgency_level (after_analysis env kept inp) = urgency_level kept"
    and "urgency_has_analysis kept \<Longrightarrow> urgency_has_analysis (after_analysis env kept inp)"
  using assms analyze_cases [OF assms]
  by (auto simp: after_analysis_def urgency_has_analysis_def)

lemma history_first_entry:
  "run_from env CollectMedicalHistory None s =
     (if analysis_is_empty (get_or (symptom_analysis s) empty_analysis)
      then prepend_event
             (NodeEvent CollectMedicalHistory
                (only_message ''No symptom analysis available for medical history collection''))
             (run_from env CreateRecommendationsNode None
                (apply_update s
                   (only_message ''No symptom analysis available for medical history collection'')))
      else \<lparr>events = [InterruptEvent (interrupt_message (get_or (symptom_analysis s) empty_analysis))],
             thread_values = s, outcome = Suspended CollectMedicalHistory\<rparr>)"
  by (subst run_from.simps) (simp add: collect_medical_history_def)

text \<open>
  The three ways a stream of an input ends: the analysis node raises, the history node
  interrupts, or the run goes on from the history node without stopping there.
\<close>

lemma stream_start_cases:
  obtains
    (Raised) u1 e where
      "collect_patient_info (merge_input kept inp) = Update u1"
      "analyze_symptoms_node env (after_patient_info kept inp) = Raise e"
      "stream_start env kept inp
         = \<lparr>events = [NodeEvent CollectPatientInfo u1], thread_values = after_patient_info kept inp,
            outcome = Failed AnalyzeSymptomsNode e\<rparr>"
  | (Interrupted) u1 u2 where
      "collect_patient_info (merge_input kept inp) = Update u1"
      "analyze_symptoms_node env (after_patient_info kept inp) = Update u2"
      "\<not> analysis_is_empty (get_or (symptom_analysis (after_analysis env kept inp)) empty_analysis)"
      "stream_start env kept inp
         = \<lparr>events = [NodeEvent CollectPatientInfo u1, NodeEvent AnalyzeSymptomsNode u2,
              InterruptEvent (interrupt_message
                (get_or (symptom_analysis (after_analysis env kept inp)) empty_analysis))],
            thread_values = after_analysis env kept inp,
            outcome = Suspended CollectMedicalHistory\<rparr>"
  | (Through) u1 u2 where
      "collect_patient_info (merge_input kept inp) = Update u1"
      "analyze_symptoms_node env (after_patient_info kept inp) = Update u2"
      "analysis_is_empty (get_or (symptom_analysis (after_analysis env kept inp)) empty_analysis)"
      "stream_start env kept inp
         = prepend_event (NodeEvent CollectPatientInfo u1)
             (prepend_event (NodeEvent AnalyzeSymptomsNode u2)
                (run_from env CollectMedicalHistory None (after_analysis env kept inp)))"
      "\<And>m. outcome (stream_start env kept inp) \<noteq> Suspended m"
proof -
  obtain u1 where u1: "collect_patient_info (merge_input kept inp) = Update u1"
    using collect_patient_info_update [of "merge_input kept inp"] by blast
  have start: "stream_start env kept inp = prepend_event (NodeEvent CollectPatientInfo u1)
      (run_from env AnalyzeSymptomsNode None (after_patient_info kept inp))"
    by (simp add: stream_start_unfold u1)
  show ?thesis
  proof (cases "analyze_symptoms_node env (after_patient_info kept inp)")
    case (Raise e)
    show ?thesis
      by (rule Raised [OF u1 Raise]) (simp add: start run_raise Raise prepend_event_def)
  next
    case (Interrupt p)
    then show ?thesis by (simp add: analyze_no_interrupt)
  next
    case (Update u2)
    let ?s = "after_analysis env kept inp"
    have s: "?s = apply_update (after_patient_info kept inp) u2"
      by (simp add: after_analysis_def Update)
    have an: "run_from env AnalyzeSymptomsNode None (after_patient_info kept inp)
        = prepend_event (NodeEvent AnalyzeSymptomsNode u2) (run_from env CollectMedicalHistory None ?s)"
      unfolding s by (rule run_step) (simp_all add: Update)
    show ?thesis
    proof (cases "analysis_is_empty (get_or (symptom_analysis ?s) empty_analysis)")
      case True
      have no: "outcome (stream_start env kept inp) \<noteq> Suspended m" for m
      proof
        assume "outcome (stream_start env kept inp) = Suspended m"
        then have "outcome (run_from env CreateRecommendationsNode None
            (apply_update ?s
               (only_message ''No symptom analysis available for medical history collection'')))
            = Suspended m"
          using True by (simp add: start an history_first_entry)
        from suspended_only_history [OF this] show False by simp
      qed
      show ?thesis
        by (rule Through [OF u1 Update True _ no]) (simp add: start an)
    next
      case False
      show ?thesis
        by (rule Interrupted [OF u1 Update False])
           (simp add: start an history_first_entry False prepend_event_def)
    qed
  qed
qed

lemma session_finished:
  assumes fin: "outcome (run_session env kept inp v) = Finished"
  obtains u1 u2 where
    "collect_patient_info (merge_input kept inp) = Update u1"
    "analyze_symptoms_node env (after_patient_info kept inp) = Update u2"
    "outcome (run_from env CollectMedicalHistory
        (if analysis_is_empty (get_or (symptom_analysis (after_analysis env kept inp)) empty_analysis)
         then None else Some v) (after_analysis env kept inp)) = Finished"
    "thread_values (run_session env kept inp v)
       = thread_values (run_from env CollectMedicalHistory
           (if analysis_is_empty (get_or (symptom_analysis (after_analysis env kept inp)) empty_analysis)
            then None else Some v) (after_analysis env kept inp))"
    "events (run_session env kept inp v)
       = NodeEvent CollectPatientInfo u1 # NodeEvent AnalyzeSymptomsNode u2
         # (if analysis_is_empty (get_or (symptom_analysis (after_analysis env kept inp)) empty_analysis)
            then []
            else [InterruptEvent (interrupt_message
                    (get_or (symptom_analysis (after_analysis env kept inp)) empty_analysis))])
         @ events (run_from env CollectMedicalHistory
             (if analysis_is_empty (get_or (symptom_analysis (after_analysis env kept inp)) empty_analysis)
              then None else Some v) (after_analysis env kept inp))"
proof (cases rule: stream_start_cases [of kept inp env])
  case (Raised u1 e)
  then have "outcome (run_session env kept inp v) = Failed AnalyzeSymptomsNode e"
    by (simp add: run_session_def resume_if_pending_def)
  then show ?thesis using fin by simp
next
  case (Interrupted u1 u2)
  show ?thesis
    using fin Interrupted(3)
    by (intro that [OF Interrupted(1,2)])
       (simp_all add: run_session_def resume_if_pending_def stream_resume_def Interrupted(4) Let_def)
next
  case (Through u1 u2)
  have same: "run_session env kept inp v = stream_start env kept inp"
    using Through(5) by (auto simp: run_session_def resume_if_pending_def split: outcome.splits)
  show ?thesis
    using fin Through(3)
    by (intro that [OF Through(1,2)]) (simp_all add: same Through(4))
qed

lemma session_labels:
  assumes "outcome (run_session env kept inp user_input) = Finished"
  shows "labels (run_session env kept inp user_input) =
           [''collect_patient_info'', ''analyze_symptoms_node'']
           @ (if analysis_is_empty (get_or (symptom_analysis
                  (thread_values (run_session env kept inp user_input))) empty_analysis)
              then [] else [''__interrupt__''])
           @ [''collect_medical_history'', ''create_recommendations_node'']
           @ (if urgency_level (thread_values (run_session env kept inp user_input)) = Some ''urgent''
              then [''escalation_advice_node''] else [])
           @ [''generate_medical_report'']
         \<and> distinct (labels (run_session env kept inp user_input))
         \<and> last (labels (run_session env kept inp user_input)) = ''generate_medical_report''"
proof -
  let ?r = "run_session env kept inp user_input"
  let ?s = "after_analysis env kept inp"
  let ?e = "analysis_is_empty (get_or (symptom_analysis ?s) empty_analysis)"
  let ?t = "run_from env CollectMedicalHistory (if ?e then None else Some user_input) ?s"
  from assms obtain u1 u2 where
    f: "outcome ?t = Finished"
    and v: "thread_values ?r = thread_values ?t"
    and e: "events ?r
       = NodeEvent CollectPatientInfo u1 # NodeEvent AnalyzeSymptomsNode u2
         # (if ?e then [] else [InterruptEvent (interrupt_message
                    (get_or (symptom_analysis ?s) empty_analysis))])
         @ events ?t"
    by (rule session_finished)
  have t: "labels ?t = expected_tail CollectMedicalHistory (urgency_level ?s = Some ''urgent'')"
     and u: "urgency_level (thread_values ?r) = urgency_level ?s"
     and a: "symptom_analysis (thread_values ?r) = symptom_analysis ?s"
    using tail_labels [OF _ f] v by simp_all
  have l: "labels ?r =
           [''collect_patient_info'', ''analyze_symptoms_node'']
           @ (if analysis_is_empty (get_or (symptom_analysis (thread_values ?r)) empty_analysis)
              then [] else [''__interrupt__''])
           @ [''collect_medical_history'', ''create_recommendations_node'']
           @ (if urgency_level (thread_values ?r) = Some ''urgent''
              then [''escalation_advice_node''] else [])
           @ [''generate_medical_report'']"
    using t unfolding u a by (simp add: labels_def e)
  show ?thesis unfolding l by simp
qed






lemma interrupt_message_fields: "interrupt_message (a\<lparr>reasoning := x\<rparr>) = interrupt_message a"
  by (simp add: interrupt_message_def)

section \<open>What a thread keeps between streams\<close>










lemma session_analysis:
  assumes "outcome (run_session env kept inp v) = Finished"
  shows "analysis_is_empty (get_or (symptom_analysis (thread_values (run_session env kept inp v)))
            empty_analysis)
         = (symptoms_read kept inp = []
            \<and> analysis_is_empty (get_or (symptom_analysis kept) empty_analysis))"
    and "escalation_advice (after_analysis env kept inp) = escalation_advice kept"
    and "urgency_level (thread_values (run_session env kept inp v))
           = urgency_level (after_analysis env kept inp)"
proof -
  let ?s = "after_analysis env kept inp"
  let ?e = "analysis_is_empty (get_or (symptom_analysis ?s) empty_analysis)"
  let ?t = "run_from env CollectMedicalHistory (if ?e then None else Some v) ?s"
  from assms obtain u1 u2 where
    a: "analyze_symptoms_node env (after_patient_info kept inp) = Update u2"
    and f: "outcome ?t = Finished"
    and v: "thread_values (run_session env kept inp v) = thread_values ?t"
    by (rule session_finished)
  show "analysis_is_empty (get_or (symptom_analysis (thread_values (run_session env kept inp v)))
            empty_analysis)
         = (symptoms_read kept inp = []
            \<and> analysis_is_empty (get_or (symptom_analysis kept) empty_analysis))"
    using tail_labels [OF _ f] v after_analysis_fields(4) [OF a] by simp
  show "escalation_advice ?s = escalation_advice kept" by (rule after_analysis_fields(1) [OF a])
  show "urgency_level (thread_values (run_session env kept inp v)) = urgency_level ?s"
    using tail_labels [OF _ f] v by simp
qed


section \<open>Evaluating concrete runs\<close>

lemmas node_defs = collect_patient_info_def analyze_symptoms_node_def collect_medical_history_def
  create_recommendations_node_def escalation_advice_node_def generate_medical_report_def

lemmas run_eval = run_session_def stream_start_def resume_if_pending_def stream_resume_def
  run_from.simps node_defs stub_env_def sample_input_def mild_input_def console_input_def
  Let_def route triage_def response_tool_calls_def merge_input_def empty_thread_def
  invoke_create_recommendations_def symptom_analysis_obj_def parse_urgency_def
  analysis_to_dict_def recommendations_to_dict_def recommendations_is_empty_def
  empty_recommendations_def analysis_is_empty_def empty_analysis_def no_update_def
  sample_analysis_def sample_recommendation_def sample_escalation_def labels_def
  failing_env_def empty_input_def none_input_def only_message_def

lemmas string_eval = strip_def lstrip_def rstrip_def lower_def lower_char_def py_isspace_def
  code_point_def char_of_def bit_Suc_0_iff Let_def

lemma urgent_thread_fields:
  "escalation_advice urgent_thread = Some (escalation_to_dict sample_escalation)"
  "urgency_level urgent_thread = Some ''urgent''"
  "symptoms urgent_thread = Some (Value ''chest pain'')"
  "symptom_analysis urgent_thread = Some (analysis_to_dict (sample_analysis Urgent))"
  "recommendations urgent_thread = Some (recommendations_to_dict sample_recommendation)"
  "medical_research urgent_thread = Some ''No additional research needed''"
  "final_report urgent_thread \<noteq> None"
  "length (messages urgent_thread) = 7"
  by (simp_all add: urgent_thread_def run_eval analysis_update_def recommendations_update_def
      process_user_input_def escalation_to_dict_def)

lemma second_run:
  "outcome (run_session stub_env urgent_thread mild_input ''no'') = Finished"
  "urgency_level (thread_values (run_session stub_env urgent_thread mild_input ''no'')) = Some ''low''"
  "labels (run_session stub_env urgent_thread mild_input ''no'')
     = [''collect_patient_info'', ''analyze_symptoms_node'', ''__interrupt__'',
        ''collect_medical_history'', ''create_recommendations_node'', ''generate_medical_report'']"
  "escalation_advice (thread_values (run_session stub_env urgent_thread mild_input ''no''))
     = escalation_advice urgent_thread"
  "symptoms (thread_values (stream_start stub_env urgent_thread mild_input))
     = Some (Value ''mild headache'')"
  "urgency_level (thread_values (stream_start stub_env urgent_thread mild_input)) = Some ''low''"
  "symptoms_read urgent_thread (console_input []) = []"
  "outcome (stream_start stub_env urgent_thread (console_input []))
     = Suspended CollectMedicalHistory"
  by (simp_all add: run_eval urgent_thread_fields analysis_update_def recommendations_update_def
      process_user_input_def symptoms_read_def)


lemma sentinel_examples:
  "medical_history (process_user_input ''no'') = Some (Value ''No additional medical history provided'')"
  "medical_history (process_user_input ''NO'') = Some (Value ''No additional medical history provided'')"
  "medical_history (process_user_input '' none '') = Some (Value ''No additional medical history provided'')"
  "medical_history (process_user_input []) = Some (Value ''No additional medical history provided'')"
  "medical_history (process_user_input ''n/a'') = Some (Value ''No additional medical history provided'')"
  by (simp_all add: process_user_input_def no_update_def string_eval)

lemma stored_example:
  "medical_history (process_user_input '' no allergies '') = Some (Value ''no allergies'')"
  by (simp add: process_user_input_def no_update_def string_eval)

lemma urgent_run:
  "outcome (run_session stub_env empty_thread sample_input ''no'') = Finished"
  "labels (run_session stub_env empty_thread sample_input ''no'') =
     [''collect_patient_info'', ''analyze_symptoms_node'', ''__interrupt__'',
      ''collect_medical_history'', ''create_recommendations_node'',
      ''escalation_advice_node'', ''generate_medical_report'']"
  by (simp_all add: run_eval analysis_update_def recommendations_update_def process_user_input_def)

lemma urgent_run_values:
  "thread_values (run_session stub_env empty_thread sample_input ''no'') = urgent_thread"
  by (simp add: urgent_thread_def)


section \<open>The escalation branch\<close>




section \<open>The resume value\<close>

text \<open>
  C2. When \<open>collect_medical_history\<close> is resumed with a value (which happens only after it
  has interrupted, so with a non-empty analysis), it stores the fixed text
  \<open>No additional medical history provided\<close> if the value is empty or its stripped,
  lower-cased form is one of \<open>no\<close>, \<open>none\<close>, \<open>n/a\<close> and the empty string, and otherwise
  the stripped value. The values \<open>no\<close>, \<open>NO\<close>, \<open> none \<close>, the empty string and \<open>n/a\<close>
  all give the fixed text.
\<close>

theorem resume_value_normalization:
  assumes "\<not> analysis_is_empty (get_or (symptom_analysis state) empty_analysis)"
  shows "collect_medical_history state (Some v) = Update (process_user_input v)
       \<and> medical_history (process_user_input v)
           = Some (Value (if v = [] \<or> lower (strip v) \<in> {''no'', ''none'', ''n/a'', []}
                          then ''No additional medical history provided'' else strip v))
       \<and> medical_history (apply_update state (process_user_input v))
           = medical_history (process_user_input v)
       \<and> medical_history (process_user_input ''no'') = Some (Value ''No additional medical history provided'')
       \<and> medical_history (process_user_input ''NO'') = Some (Value ''No additional medical history provided'')
       \<and> medical_history (process_user_input '' none '') = Some (Value ''No additional medical history provided'')
       \<and> medical_history (process_user_input []) = Some (Value ''No additional medical history provided'')
       \<and> medical_history (process_user_input ''n/a'') = Some (Value ''No additional medical history provided'')"
proof -
  have 1: "collect_medical_history state (Some v) = Update (process_user_input v)"
    using assms by (simp add: collect_medical_history_def)
  have 2: "medical_history (process_user_input v)
           = Some (Value (if v = [] \<or> lower (strip v) \<in> {''no'', ''none'', ''n/a'', []}
                          then ''No additional medical history provided'' else strip v))"
    by (simp add: process_user_input_def no_update_def)
  have 3: "medical_history (apply_update state (process_user_input v))
           = medical_history (process_user_input v)"
    unfolding 2 by (simp add: 2)
  show ?thesis using 1 2 3 sentinel_examples by simp
qed

theorem resume_value_normalization_witness:
  "\<not> analysis_is_empty (get_or (symptom_analysis analysed_state) empty_analysis)
   \<and> collect_medical_history analysed_state (Some '' no allergies '')
       = Update (process_user_input '' no allergies '')
   \<and> medical_history (process_user_input '' no allergies '') = Some (Value ''no allergies'')"
proof -
  have a: "\<not> analysis_is_empty (get_or (symptom_analysis analysed_state) empty_analysis)"
    by (simp add: analysed_state_def no_update_def)
  show ?thesis
    using resume_value_normalization [OF a, of "'' no allergies ''"] a stored_example by simp
qed

section \<open>The suspension point\<close>

text \<open>
  C3, as the specification states it: on every first entry \<open>collect_medical_history\<close>
  issues a suspend signal. With an input that holds no message the analysis node writes no
  analysis; on a thread that has not been used the history node then returns a status
  message on its first entry, and the run goes on to the end without any suspension.
\<close>

theorem suspension_counterexample:
  "collect_medical_history (after_analysis failing_env empty_thread empty_input) None
     = Update (only_message ''No symptom analysis available for medical history collection'')
   \<and> outcome (stream_start failing_env empty_thread empty_input) = Finished"
  by (simp add: run_eval after_analysis_def after_patient_info_def)

text \<open>
  C3, amended. A node interrupts exactly when it is \<open>collect_medical_history\<close>, entered
  without a resume value, with a non-empty \<open>symptom_analysis\<close> in the state. The payload is
  the prompt that asks for the medical history and shows, under \<open>Current analysis\<close>, the
  summary, the urgency and the possible conditions of that analysis (\<open>N/A\<close> for a missing
  summary or urgency, the empty list for missing conditions); the reasoning does not enter
  it. The run stops there with the state unchanged and the node pending. With a missing or
  empty analysis the node completes with a status message and the run goes on. No run is
  ever suspended at another node.
\<close>

theorem sole_suspension_point:
  "(exec_node env n resume state = Interrupt payload)
     = (n = CollectMedicalHistory \<and> resume = None
        \<and> \<not> analysis_is_empty (get_or (symptom_analysis state) empty_analysis)
        \<and> payload = interrupt_message (get_or (symptom_analysis state) empty_analysis))
   \<and> interrupt_message a =
       ''Based on the symptom analysis, do you have relevant medical history ''
       @ ''(medications, conditions, allergies, surgeries, family history) ''
       @ ''that might help improve the recommendations?\<newline>\<newline>''
       @ ''Current analysis:\<newline>''
       @ ''- Summary: '' @ (case symptom_summary a of None \<Rightarrow> ''N/A'' | Some text \<Rightarrow> text)
       @ ''\<newline>''
       @ ''- Urgency: '' @ (case analysis_urgency_level a of None \<Rightarrow> ''N/A'' | Some text \<Rightarrow> text)
       @ ''\<newline>''
       @ ''- Possible conditions: ''
       @ str_list (case possible_conditions a of None \<Rightarrow> [] | Some conditions \<Rightarrow> conditions)
       @ ''\<newline>\<newline>''
       @ ''Enter your medical history (or 'no'/'none' if not applicable):''
   \<and> run_from env CollectMedicalHistory None state =
       (if analysis_is_empty (get_or (symptom_analysis state) empty_analysis)
        then prepend_event
               (NodeEvent CollectMedicalHistory
                  (only_message ''No symptom analysis available for medical history collection''))
               (run_from env CreateRecommendationsNode None
                  (apply_update state
                     (only_message ''No symptom analysis available for medical history collection'')))
        else \<lparr>events = [InterruptEvent (interrupt_message (get_or (symptom_analysis state) empty_analysis))],
               thread_values = state, outcome = Suspended CollectMedicalHistory\<rparr>)
   \<and> interrupt_message (a\<lparr>reasoning := x\<rparr>) = interrupt_message a
   \<and> (outcome (run_from env n resume state) = Suspended m \<longrightarrow> m = CollectMedicalHistory)"
proof -
  have prompt: "interrupt_message a =
       ''Based on the symptom analysis, do you have relevant medical history ''
       @ ''(medications, conditions, allergies, surgeries, family history) ''
       @ ''that might help improve the recommendations?\<newline>\<newline>''
       @ ''Current analysis:\<newline>''
       @ ''- Summary: '' @ (case symptom_summary a of None \<Rightarrow> ''N/A'' | Some text \<Rightarrow> text)
       @ ''\<newline>''
       @ ''- Urgency: '' @ (case analysis_urgency_level a of None \<Rightarrow> ''N/A'' | Some text \<Rightarrow> text)
       @ ''\<newline>''
       @ ''- Possible conditions: ''
       @ str_list (case possible_conditions a of None \<Rightarrow> [] | Some conditions \<Rightarrow> conditions)
       @ ''\<newline>\<newline>''
       @ ''Enter your medical history (or 'no'/'none' if not applicable):''"
    by (simp add: interrupt_message_def get_or_def)
  show ?thesis
    using suspended_only_history [of env n resume state m] prompt
    by (simp only: exec_interrupt_iff history_first_entry interrupt_message_fields) simp
qed

theorem sole_suspension_point_witness:
  "outcome (run_from stub_env CollectPatientInfo None (merge_input empty_thread sample_input))
     = Suspended CollectMedicalHistory
   \<and> exec_node stub_env CollectMedicalHistory None (after_analysis stub_env empty_thread sample_input)
     = Interrupt (interrupt_message (analysis_to_dict (sample_analysis Urgent)))
   \<and> interrupt_message (analysis_to_dict (sample_analysis Urgent))
     = ''Based on the symptom analysis, do you have relevant medical history (medications, conditions, allergies, surgeries, family history) that might help improve the recommendations?\<newline>\<newline>Current analysis:\<newline>- Summary: chest pain\<newline>- Urgency: urgent\<newline>- Possible conditions: ['' @ [CHR 0x27] @ ''angina'' @ [CHR 0x27] @ '']\<newline>\<newline>Enter your medical history (or 'no'/'none' if not applicable):''"
proof -
  let ?a = "analysis_to_dict (sample_analysis Urgent)"
  have s: "symptom_analysis (after_analysis stub_env empty_thread sample_input) = Some ?a"
    by (simp add: after_analysis_def after_patient_info_def run_eval analysis_update_def)
  have o: "\<exists>m. outcome (run_from stub_env CollectPatientInfo None
      (merge_input empty_thread sample_input)) = Suspended m"
    by (simp add: run_eval)
  then obtain m where m: "outcome (run_from stub_env CollectPatientInfo None
      (merge_input empty_thread sample_input)) = Suspended m" ..
  have "m = CollectMedicalHistory"
    using sole_suspension_point [where env = stub_env and n = CollectPatientInfo
        and resume = None and state = "merge_input empty_thread sample_input" and m = m] m
    by blast
  moreover have "exec_node stub_env CollectMedicalHistory None
      (after_analysis stub_env empty_thread sample_input) = Interrupt (interrupt_message ?a)"
    using sole_suspension_point [where env = stub_env and n = CollectMedicalHistory
        and resume = None and state = "after_analysis stub_env empty_thread sample_input"
        and payload = "interrupt_message ?a"] s
    by simp
  moreover have "interrupt_message ?a
     = ''Based on the symptom analysis, do you have relevant medical history (medications, conditions, allergies, surgeries, family history) that might help improve the recommendations?\<newline>\<newline>Current analysis:\<newline>- Summary: chest pain\<newline>- Urgency: urgent\<newline>- Possible conditions: ['' @ [CHR 0x27] @ ''angina'' @ [CHR 0x27] @ '']\<newline>\<newline>Enter your medical history (or 'no'/'none' if not applicable):''"
    by (subst sole_suspension_point [where a = ?a, THEN conjunct2, THEN conjunct1])
      (simp add: analysis_to_dict_def sample_analysis_def str_list_def repr_str_def repr_char_def
        squote_def dquote_def backslash_def py_isprintable_def code_point_def Let_def)
  ultimately show ?thesis using m by simp
qed

section \<open>Missing symptoms\<close>

text \<open>
  C4, as the specification states it: with missing symptoms the workflow fails with an input
  error and does not advance. With an input that holds no message and no symptoms, on a
  thread that has not been used and with every provider failing, the run finishes: all five
  nodes of the non-urgent path complete and the report is written.
\<close>

theorem missing_symptoms_counterexample:
  "outcome (stream_start failing_env empty_thread empty_input) = Finished
   \<and> labels (stream_start failing_env empty_thread empty_input)
      = [''collect_patient_info'', ''analyze_symptoms_node'', ''collect_medical_history'',
         ''create_recommendations_node'', ''generate_medical_report'']
   \<and> final_report (thread_values (stream_start failing_env empty_thread empty_input)) \<noteq> None"
  by (simp add: run_eval)

text \<open>
  C4, amended. When the symptoms the analysis node reads are missing, \<open>None\<close> or empty, no
  node raises an input error. On every thread: \<open>collect_patient_info\<close> always returns, with
  the status message \<open>No patient information found\<close> and nothing else when the state holds no
  message; \<open>analyze_symptoms_node\<close> calls no provider, returns only the status message
  \<open>No symptoms provided for analysis\<close> and leaves the stored analysis as it was; and the run
  advances to \<open>collect_medical_history\<close>, which completes when the thread holds no analysis
  and interrupts when it holds one. On a thread that has not been used the run continues
  through \<open>collect_medical_history\<close> and \<open>create_recommendations_node\<close> to
  \<open>generate_medical_report\<close>, and no analysis is stored. There it finishes, or fails with a
  type error, or fails because the file cannot be written. The type error comes from joining
  a string with \<open>None\<close>: it occurs exactly when the input holds \<open>None\<close> under
  \<open>medical_history\<close>, or holds no message and \<open>None\<close> under \<open>symptoms\<close>. The console driver
  refuses symptoms that are blank before it starts the workflow.
\<close>

theorem missing_symptoms_no_error:
  assumes "symptoms_read kept inp = []"
    and "symptoms_read empty_thread first_input = []"
  shows "(messages (merge_input kept inp) = [] \<longrightarrow>
            collect_patient_info (merge_input kept inp)
              = Update (only_message ''No patient information found''))
       \<and> (\<exists>u. collect_patient_info (merge_input kept inp) = Update u)
       \<and> analyze_symptoms_node env (after_patient_info kept inp)
            = Update (only_message ''No symptoms provided for analysis'')
       \<and> symptom_analysis (after_analysis env kept inp) = symptom_analysis kept
       \<and> take 3 (labels (stream_start env kept inp))
            = [''collect_patient_info'', ''analyze_symptoms_node'',
               if analysis_is_empty (get_or (symptom_analysis kept) empty_analysis)
               then ''collect_medical_history'' else ''__interrupt__'']
       \<and> labels (stream_start env empty_thread first_input)
            = [''collect_patient_info'', ''analyze_symptoms_node'', ''collect_medical_history'',
               ''create_recommendations_node'']
              @ (if outcome (stream_start env empty_thread first_input) = Finished
                 then [''generate_medical_report''] else [])
       \<and> (outcome (stream_start env empty_thread first_input) = Finished
            \<or> outcome (stream_start env empty_thread first_input)
                = Failed GenerateMedicalReport TypeError
            \<or> outcome (stream_start env empty_thread first_input)
                = Failed GenerateMedicalReport OSError)
       \<and> (outcome (stream_start env empty_thread first_input) = Failed GenerateMedicalReport TypeError)
            = (input_messages first_input = [] \<and> input_symptoms first_input = Some PyNone
               \<or> input_medical_history first_input = Some PyNone)
       \<and> symptom_analysis (thread_values (stream_start env empty_thread first_input)) = None
       \<and> (strip symptoms_text = [] \<longrightarrow> main env symptoms_text user_input = None)"
proof -
  let ?m2 = "only_message ''No symptoms provided for analysis''"
  let ?m3 = "only_message ''No symptom analysis available for medical history collection''"
  let ?m4 = "only_message ''No symptom analysis available for recommendations''"
  have c1: "messages (merge_input kept inp) = [] \<longrightarrow>
      collect_patient_info (merge_input kept inp)
        = Update (only_message ''No patient information found'')"
    by (simp add: collect_patient_info_def)
  have c2: "\<exists>u. collect_patient_info (merge_input kept inp) = Update u"
    using collect_patient_info_update [of "merge_input kept inp"] by blast
  have c3: "analyze_symptoms_node env (after_patient_info kept inp) = Update ?m2"
    using assms(1) by (simp add: analyze_empty)
  have c4: "symptom_analysis (after_analysis env kept inp) = symptom_analysis kept"
    by (simp add: after_analysis_def c3)
  have e: "analysis_is_empty (get_or (symptom_analysis (after_analysis env kept inp)) empty_analysis)
      = analysis_is_empty (get_or (symptom_analysis kept) empty_analysis)"
    by (simp add: c4)
  have c5: "take 3 (labels (stream_start env kept inp))
            = [''collect_patient_info'', ''analyze_symptoms_node'',
               if analysis_is_empty (get_or (symptom_analysis kept) empty_analysis)
               then ''collect_medical_history'' else ''__interrupt__'']"
  proof (cases rule: stream_start_cases [of kept inp env])
    case (Raised u1 e)
    then show ?thesis using c3 by simp
  next
    case (Interrupted u1 u2)
    then show ?thesis using e by (simp add: labels_def)
  next
    case (Through u1 u2)
    then show ?thesis using e by (simp add: labels_def history_first_entry)
  qed
  let ?s1 = "after_patient_info empty_thread first_input"
  let ?s4 = "apply_update (apply_update (apply_update ?s1 ?m2) ?m3) ?m4"
  let ?type_error = "input_messages first_input = [] \<and> input_symptoms first_input = Some PyNone
               \<or> input_medical_history first_input = Some PyNone"
  obtain u1 where u1: "collect_patient_info (merge_input empty_thread first_input) = Update u1"
    using collect_patient_info_update [of "merge_input empty_thread first_input"] by blast
  have a: "analyze_symptoms_node env ?s1 = Update ?m2"
    using assms(2) by (simp add: analyze_empty)
  have r2: "run_from env AnalyzeSymptomsNode None ?s1
      = prepend_event (NodeEvent AnalyzeSymptomsNode ?m2)
          (run_from env CollectMedicalHistory None (apply_update ?s1 ?m2))"
    by (rule run_step) (simp_all add: a)
  have r3: "run_from env CollectMedicalHistory None (apply_update ?s1 ?m2)
      = prepend_event (NodeEvent CollectMedicalHistory ?m3)
          (run_from env CreateRecommendationsNode None (apply_update (apply_update ?s1 ?m2) ?m3))"
    by (simp add: history_first_entry empty_analysis_is_empty)
  have r4: "run_from env CreateRecommendationsNode None (apply_update (apply_update ?s1 ?m2) ?m3)
      = prepend_event (NodeEvent CreateRecommendationsNode ?m4)
          (run_from env GenerateMedicalReport None ?s4)"
    by (rule run_step)
      (simp_all add: create_recommendations_node_def route empty_analysis_is_empty)
  have all: "stream_start env empty_thread first_input
      = prepend_event (NodeEvent CollectPatientInfo u1)
          (prepend_event (NodeEvent AnalyzeSymptomsNode ?m2)
            (prepend_event (NodeEvent CollectMedicalHistory ?m3)
              (prepend_event (NodeEvent CreateRecommendationsNode ?m4)
                (run_from env GenerateMedicalReport None ?s4))))"
    by (simp add: stream_start_unfold u1 r2 r3 r4)
  have sy: "symptoms ?s4 =
      (if input_messages first_input = [] then input_symptoms first_input
       else Some (Value (message_content (last (input_messages first_input)))))"
    by (simp add: after_patient_info_def collect_patient_info_def no_update_def)
  have mh: "medical_history ?s4 =
      (if input_messages first_input = [] then input_medical_history first_input
       else Some (get_or (input_medical_history first_input)
                    (Value ''No medical history provided'')))"
    by (simp add: after_patient_info_def collect_patient_info_def no_update_def)
  have rc: "recommendations ?s4 = None"
    by simp
  have g: "(?type_error \<and> generate_medical_report env ?s4 = Raise TypeError)
      \<or> (\<not> ?type_error \<and> ((\<exists>u. generate_medical_report env ?s4 = Update u)
            \<or> generate_medical_report env ?s4 = Raise OSError))"
    unfolding generate_medical_report_def sy mh rc
    by (auto simp: Let_def empty_recommendations_def get_or_def
        split: option.splits or_none.splits)
  have last: "(\<not> ?type_error \<and> (\<exists>u. run_from env GenerateMedicalReport None ?s4
        = \<lparr>events = [NodeEvent GenerateMedicalReport u], thread_values = apply_update ?s4 u,
           outcome = Finished\<rparr> \<and> symptom_analysis u = None))
      \<or> (\<exists>err. run_from env GenerateMedicalReport None ?s4
        = \<lparr>events = [], thread_values = ?s4, outcome = Failed GenerateMedicalReport err\<rparr>
          \<and> (err = TypeError \<or> err = OSError) \<and> (err = TypeError) = ?type_error)"
  proof -
    consider (ok) u where "\<not> ?type_error" "generate_medical_report env ?s4 = Update u"
      | (bad) err where "generate_medical_report env ?s4 = Raise err"
          "err = TypeError \<or> err = OSError" "(err = TypeError) = ?type_error"
      using g by auto
    then show ?thesis
    proof cases
      case ok
      then have u: "exec_node env GenerateMedicalReport None ?s4 = Update u" by simp
      have "symptom_analysis u = None" using exec_writes [OF u] by auto
      then show ?thesis using run_end [OF u] ok(1) by auto
    next
      case bad
      then have "exec_node env GenerateMedicalReport None ?s4 = Raise err" by simp
      from run_raise [OF this] show ?thesis using bad(2,3) by blast
    qed
  qed
  have c6: "strip symptoms_text = [] \<longrightarrow> main env symptoms_text user_input = None"
    by (simp add: main_def)
  have rest: "labels (stream_start env empty_thread first_input)
            = [''collect_patient_info'', ''analyze_symptoms_node'', ''collect_medical_history'',
               ''create_recommendations_node'']
              @ (if outcome (stream_start env empty_thread first_input) = Finished
                 then [''generate_medical_report''] else [])
       \<and> (outcome (stream_start env empty_thread first_input) = Finished
            \<or> outcome (stream_start env empty_thread first_input)
                = Failed GenerateMedicalReport TypeError
            \<or> outcome (stream_start env empty_thread first_input)
                = Failed GenerateMedicalReport OSError)
       \<and> (outcome (stream_start env empty_thread first_input) = Failed GenerateMedicalReport TypeError)
            = ?type_error
       \<and> symptom_analysis (thread_values (stream_start env empty_thread first_input)) = None"
    using last by (auto simp: all labels_def)
  show ?thesis using c1 c2 c3 c4 c5 c6 rest by blast
qed

theorem missing_symptoms_no_error_witness:
  "symptoms_read empty_thread empty_input = []
   \<and> symptoms_read empty_thread none_input = []
   \<and> analyze_symptoms_node failing_env (after_patient_info empty_thread empty_input)
        = Update (only_message ''No symptoms provided for analysis'')
   \<and> take 3 (labels (stream_start failing_env empty_thread empty_input))
        = [''collect_patient_info'', ''analyze_symptoms_node'', ''collect_medical_history'']
   \<and> outcome (stream_start failing_env empty_thread none_input)
        = Failed GenerateMedicalReport TypeError
   \<and> labels (stream_start failing_env empty_thread none_input)
        = [''collect_patient_info'', ''analyze_symptoms_node'', ''collect_medical_history'',
           ''create_recommendations_node'']
   \<and> main failing_env '' '' ''no'' = None"
proof -
  have a: "symptoms_read empty_thread empty_input = []"
    by (simp add: symptoms_read_def empty_input_def)
  have b: "symptoms_read empty_thread none_input = []"
    by (simp add: symptoms_read_def none_input_def)
  have i: "input_messages none_input = [] \<and> input_symptoms none_input = Some PyNone"
    by (simp add: none_input_def)
  have e: "analysis_is_empty (get_or (symptom_analysis empty_thread) empty_analysis)"
    by (simp add: empty_analysis_is_empty)
  have s: "strip '' '' = []" by (simp add: string_eval)
  note t = missing_symptoms_no_error [OF a b, where env = failing_env and symptoms_text = "'' ''"
      and user_input = "''no''"]
  have 1: "analyze_symptoms_node failing_env (after_patient_info empty_thread empty_input)
        = Update (only_message ''No symptoms provided for analysis'')"
    using t by blast
  have 2: "take 3 (labels (stream_start failing_env empty_thread empty_input))
        = [''collect_patient_info'', ''analyze_symptoms_node'', ''collect_medical_history'']"
    using t e by simp
  have 3: "outcome (stream_start failing_env empty_thread none_input)
        = Failed GenerateMedicalReport TypeError"
    using t i by blast
  have 4: "labels (stream_start failing_env empty_thread none_input)
        = [''collect_patient_info'', ''analyze_symptoms_node'', ''collect_medical_history'',
           ''create_recommendations_node'']"
    using t 3 by simp
  have 5: "main failing_env '' '' ''no'' = None"
    using t s by blast
  show ?thesis using a b 1 2 3 4 5 by blast
qed

section \<open>The order of the steps\<close>

text \<open>
  C6, as the specification states it: every successful run suspends at
  \<open>collect_medical_history\<close> and resumes there. On a thread that has not been used, a run
  whose only message is empty finishes with the five node events and no interrupt.
\<close>

theorem step_order_counterexample:
  "outcome (run_session failing_env empty_thread
      \<lparr>input_messages = [HumanMessage []], input_symptoms = Some (Value []),
       input_medical_history = None\<rparr> ''no'') = Finished
   \<and> labels (run_session failing_env empty_thread
      \<lparr>input_messages = [HumanMessage []], input_symptoms = Some (Value []),
       input_medical_history = None\<rparr> ''no'')
     = [''collect_patient_info'', ''analyze_symptoms_node'', ''collect_medical_history'',
        ''create_recommendations_node'', ''generate_medical_report'']"
  by (simp add: run_eval)

text \<open>
  C6, amended. Every stream of an input starts again at \<open>collect_patient_info\<close>, on what the
  thread holds. If it is suspended, it is suspended at \<open>collect_medical_history\<close> and its
  events are \<open>collect_patient_info\<close>, \<open>analyze_symptoms_node\<close> and the interrupt; a resume
  that then reaches the end streams \<open>collect_medical_history\<close>,
  \<open>create_recommendations_node\<close>, \<open>escalation_advice_node\<close> exactly when the urgency is
  \<open>urgent\<close>, and \<open>generate_medical_report\<close>. So for a stream followed by the resume that
  reaches the end, on any thread, the events are in this order: \<open>collect_patient_info\<close>,
  \<open>analyze_symptoms_node\<close>, the interrupt unless the symptoms read are empty and the thread
  held no analysis, \<open>collect_medical_history\<close>, \<open>create_recommendations_node\<close>,
  \<open>escalation_advice_node\<close> exactly when the urgency is \<open>urgent\<close>, and
  \<open>generate_medical_report\<close>; no label occurs twice and \<open>generate_medical_report\<close> is the
  last. A thread that has not been used holds no analysis, so there the interrupt occurs
  exactly when the symptoms read are not empty; a stream on a thread that holds an analysis
  never reaches the end by itself: it is suspended, or the analysis node raises. The first
  two nodes run once for each stream on the thread, so a driver that streams the input again
  before it resumes repeats them. A finished run of the console driver has the interrupt.
\<close>

theorem step_order:
  assumes "outcome (run_session env kept inp user_input) = Finished"
  shows "labels (run_session env kept inp user_input) =
           [''collect_patient_info'', ''analyze_symptoms_node'']
           @ (if symptoms_read kept inp = []
                 \<and> analysis_is_empty (get_or (symptom_analysis kept) empty_analysis)
              then [] else [''__interrupt__''])
           @ [''collect_medical_history'', ''create_recommendations_node'']
           @ (if urgency_level (thread_values (run_session env kept inp user_input)) = Some ''urgent''
              then [''escalation_advice_node''] else [])
           @ [''generate_medical_report'']
       \<and> distinct (labels (run_session env kept inp user_input))
       \<and> last (labels (run_session env kept inp user_input)) = ''generate_medical_report''
       \<and> analysis_is_empty (get_or (symptom_analysis empty_thread) empty_analysis)
       \<and> (outcome (stream_start env' kept' inp') = Suspended n \<longrightarrow>
            n = CollectMedicalHistory
            \<and> labels (stream_start env' kept' inp')
                = [''collect_patient_info'', ''analyze_symptoms_node'', ''__interrupt__'']
            \<and> (outcome (stream_resume env' v n (thread_values (stream_start env' kept' inp')))
                  = Finished \<longrightarrow>
                labels (stream_resume env' v n (thread_values (stream_start env' kept' inp')))
                  = [''collect_medical_history'', ''create_recommendations_node'']
                    @ (if urgency_level (thread_values (stream_start env' kept' inp'))
                            = Some ''urgent''
                       then [''escalation_advice_node''] else [])
                    @ [''generate_medical_report'']))
       \<and> (\<not> analysis_is_empty (get_or (symptom_analysis kept') empty_analysis) \<longrightarrow>
            outcome (stream_start env' kept' inp') = Suspended CollectMedicalHistory
            \<or> (\<exists>e. outcome (stream_start env' kept' inp') = Failed AnalyzeSymptomsNode e))
       \<and> (main env' symptoms_text v = Some r \<and> outcome r = Finished \<longrightarrow>
            labels r =
              [''collect_patient_info'', ''analyze_symptoms_node'', ''__interrupt__'',
               ''collect_medical_history'', ''create_recommendations_node'']
              @ (if urgency_level (thread_values r) = Some ''urgent''
                 then [''escalation_advice_node''] else [])
              @ [''generate_medical_report''])"
proof -
  let ?r = "run_session env kept inp user_input"
  have A: "labels ?r =
           [''collect_patient_info'', ''analyze_symptoms_node'']
           @ (if symptoms_read kept inp = []
                 \<and> analysis_is_empty (get_or (symptom_analysis kept) empty_analysis)
              then [] else [''__interrupt__''])
           @ [''collect_medical_history'', ''create_recommendations_node'']
           @ (if urgency_level (thread_values ?r) = Some ''urgent''
              then [''escalation_advice_node''] else [])
           @ [''generate_medical_report'']
       \<and> distinct (labels ?r) \<and> last (labels ?r) = ''generate_medical_report''"
    unfolding session_analysis(1) [OF assms, symmetric] by (rule session_labels [OF assms])
  have B: "analysis_is_empty (get_or (symptom_analysis empty_thread) empty_analysis)"
    by (simp add: empty_analysis_is_empty)
  have C: "outcome (stream_start env' kept' inp') = Suspended n \<longrightarrow>
            n = CollectMedicalHistory
            \<and> labels (stream_start env' kept' inp')
                = [''collect_patient_info'', ''analyze_symptoms_node'', ''__interrupt__'']
            \<and> (outcome (stream_resume env' v n (thread_values (stream_start env' kept' inp')))
                  = Finished \<longrightarrow>
                labels (stream_resume env' v n (thread_values (stream_start env' kept' inp')))
                  = [''collect_medical_history'', ''create_recommendations_node'']
                    @ (if urgency_level (thread_values (stream_start env' kept' inp'))
                            = Some ''urgent''
                       then [''escalation_advice_node''] else [])
                    @ [''generate_medical_report''])"
  proof (cases rule: stream_start_cases [of kept' inp' env'])
    case (Raised u1 e)
    then show ?thesis by simp
  next
    case (Interrupted u1 u2)
    have "outcome (run_from env' CollectMedicalHistory (Some v) (after_analysis env' kept' inp'))
        = Finished \<longrightarrow>
      labels (run_from env' CollectMedicalHistory (Some v) (after_analysis env' kept' inp'))
        = expected_tail CollectMedicalHistory
            (urgency_level (after_analysis env' kept' inp') = Some ''urgent'')"
      using tail_labels [of CollectMedicalHistory env' "Some v" "after_analysis env' kept' inp'"]
      by simp
    then show ?thesis using Interrupted(4) by (simp add: labels_def stream_resume_def)
  next
    case (Through u1 u2)
    then show ?thesis by simp
  qed
  have D: "\<not> analysis_is_empty (get_or (symptom_analysis kept') empty_analysis) \<longrightarrow>
            outcome (stream_start env' kept' inp') = Suspended CollectMedicalHistory
            \<or> (\<exists>e. outcome (stream_start env' kept' inp') = Failed AnalyzeSymptomsNode e)"
  proof (cases rule: stream_start_cases [of kept' inp' env'])
    case (Raised u1 e)
    then show ?thesis by simp
  next
    case (Interrupted u1 u2)
    then show ?thesis by simp
  next
    case (Through u1 u2)
    then show ?thesis using after_analysis_fields(4) [OF Through(2)] by simp
  qed
  have E: "main env' symptoms_text v = Some r \<and> outcome r = Finished \<longrightarrow>
            labels r =
              [''collect_patient_info'', ''analyze_symptoms_node'', ''__interrupt__'',
               ''collect_medical_history'', ''create_recommendations_node'']
              @ (if urgency_level (thread_values r) = Some ''urgent''
                 then [''escalation_advice_node''] else [])
              @ [''generate_medical_report'']"
  proof (intro impI, elim conjE)
    assume m: "main env' symptoms_text v = Some r" and f: "outcome r = Finished"
    have t: "symptoms_text \<noteq> []" using m by (auto simp: main_def strip_def lstrip_def rstrip_def)
    have r: "r = run_session env' empty_thread (console_input symptoms_text) v"
      using m by (auto simp: main_def split: if_splits)
    have read: "symptoms_read empty_thread (console_input symptoms_text) = symptoms_text"
      by (simp add: symptoms_read_def console_input_def)
    have fin: "outcome (run_session env' empty_thread (console_input symptoms_text) v) = Finished"
      using f r by simp
    show "labels r =
              [''collect_patient_info'', ''analyze_symptoms_node'', ''__interrupt__'',
               ''collect_medical_history'', ''create_recommendations_node'']
              @ (if urgency_level (thread_values r) = Some ''urgent''
                 then [''escalation_advice_node''] else [])
              @ [''generate_medical_report'']"
      using session_labels [OF fin] session_analysis(1) [OF fin] t
      by (simp add: r read)
  qed
  show ?thesis using A B C D E by blast
qed

theorem step_order_witness:
  "outcome (run_session stub_env empty_thread sample_input ''no'') = Finished
   \<and> labels (run_session stub_env empty_thread sample_input ''no'') =
       [''collect_patient_info'', ''analyze_symptoms_node'', ''__interrupt__'',
        ''collect_medical_history'', ''create_recommendations_node'',
        ''escalation_advice_node'', ''generate_medical_report'']
   \<and> \<not> analysis_is_empty (get_or (symptom_analysis urgent_thread) empty_analysis)
   \<and> symptoms_read urgent_thread (console_input []) = []
   \<and> outcome (stream_start stub_env urgent_thread (console_input []))
       = Suspended CollectMedicalHistory
   \<and> labels (stream_start stub_env urgent_thread (console_input []))
       = [''collect_patient_info'', ''analyze_symptoms_node'', ''__interrupt__'']
   \<and> main stub_env ''chest pain'' ''no'' = Some (run_session stub_env empty_thread sample_input ''no'')"
proof -
  let ?r = "run_session stub_env empty_thread sample_input ''no''"
  have fin: "outcome ?r = Finished"
    by (rule urgent_run)
  have urgent: "urgency_level (thread_values ?r) = Some ''urgent''"
    by (simp add: urgent_run_values urgent_thread_fields)
  have kept: "\<not> analysis_is_empty (get_or (symptom_analysis urgent_thread) empty_analysis)"
    by (simp add: urgent_thread_fields analysis_to_dict_def sample_analysis_def
        analysis_is_empty_def empty_analysis_def)
  have m: "main stub_env ''chest pain'' ''no'' = Some ?r"
    by (simp add: main_def sample_input_def string_eval)
  have read: "symptoms_read empty_thread sample_input = ''chest pain''"
    by (simp add: symptoms_read_def sample_input_def console_input_def)
  note t = step_order [OF fin, where env' = stub_env and v = "''no''"
      and symptoms_text = "''chest pain''" and r = ?r and kept' = urgent_thread
      and inp' = "console_input []" and n = CollectMedicalHistory]
  have 1: "labels ?r =
       [''collect_patient_info'', ''analyze_symptoms_node'', ''__interrupt__'',
        ''collect_medical_history'', ''create_recommendations_node'',
        ''escalation_advice_node'', ''generate_medical_report'']"
    using t m fin urgent by (simp add: read)
  have 2: "labels (stream_start stub_env urgent_thread (console_input []))
       = [''collect_patient_info'', ''analyze_symptoms_node'', ''__interrupt__'']"
    using t second_run(8) by blast
  show ?thesis using fin 1 kept second_run(7,8) 2 m by blast
qed

section \<open>The research notes\<close>




section \<open>The report and the thread\<close>




section \<open>The guards of the escalation node\<close>

text \<open>
  C9. When \<open>urgency_level\<close> is not the string \<open>urgent\<close> (also when it is missing), or
  \<open>symptom_analysis\<close> or \<open>recommendations\<close> is missing or empty,
  \<open>escalation_advice_node\<close> returns one status message and nothing else, whatever the
  providers do; merging it changes only \<open>messages\<close>, to which the message is appended.
\<close>

theorem escalation_guard_frame:
  assumes "urgency_level state \<noteq> Some ''urgent''
         \<or> analysis_is_empty (get_or (symptom_analysis state) empty_analysis)
         \<or> recommendations_is_empty (get_or (recommendations state) empty_recommendations)"
  shows "escalation_advice_node env state
           = Update (only_message
               (if urgency_level state \<noteq> Some ''urgent''
                then ''Case not urgent - escalation advice not needed''
                else ''Insufficient data for escalation advice''))
       \<and> apply_update state
            (only_message
               (if urgency_level state \<noteq> Some ''urgent''
                then ''Case not urgent - escalation advice not needed''
                else ''Insufficient data for escalation advice''))
           = state\<lparr>messages := messages state
                @ [AIMessage (if urgency_level state \<noteq> Some ''urgent''
                              then ''Case not urgent - escalation advice not needed''
                              else ''Insufficient data for escalation advice'')]\<rparr>"
proof -
  have "escalation_advice_node env state
           = Update (only_message
               (if urgency_level state \<noteq> Some ''urgent''
                then ''Case not urgent - escalation advice not needed''
                else ''Insufficient data for escalation advice''))"
    using assms
    by (cases "urgency_level state") (auto simp: escalation_advice_node_def Let_def)
  then show ?thesis by (simp add: apply_only_message)
qed

theorem escalation_guard_frame_witness:
  "urgency_level analysed_state \<noteq> Some ''urgent''
   \<and> escalation_advice_node failing_env analysed_state
       = Update (only_message ''Case not urgent - escalation advice not needed'')
   \<and> apply_update analysed_state
        (only_message ''Case not urgent - escalation advice not needed'')
       = analysed_state\<lparr>messages := messages analysed_state
            @ [AIMessage ''Case not urgent - escalation advice not needed'']\<rparr>"
proof -
  have a: "urgency_level analysed_state \<noteq> Some ''urgent''"
    by (simp add: analysed_state_def no_update_def)
  show ?thesis
    using escalation_guard_frame [of analysed_state failing_env] a by simp
qed

end
